theory Spec2Isabelle
  imports Complex_Main
begin

section \<open>Python values and the builtins the sources use\<close>

text \<open>
  Every value the sources handle comes out of \<^verbatim>\<open>json.load\<close> or is built from such
  values, so one datatype of JSON values stands for the Python objects. A dict is an
  association list in insertion order with distinct keys; a float is the rational it
  denotes (only its being zero is ever inspected). Strings are byte lists.
\<close>

datatype json =
    JNull
  | JBool bool
  | JInt int
  | JFloat rat
  | JStr string
  | JArr "json list"
  | JObj "(string \<times> json) list"

type_synonym dict = "(string \<times> json) list"

text \<open>
  The exceptions raised implicitly or explicitly by the modelled code. \<open>Unmodelled\<close> is
  no exception of Python: it marks the one place where the model of a library function stops.
\<close>

datatype py_error =
    AttributeError
  | TypeError
  | KeyError string
  | IndexError
  | ValueError
  | JSONDecodeError string
  | OSError
  | Unmodelled

text \<open>\<^verbatim>\<open>bool(v)\<close>: the truth value Python gives a JSON value.\<close>

fun truthy :: "json \<Rightarrow> bool" where
  "truthy JNull = False"
| "truthy (JBool b) = b"
| "truthy (JInt i) = (i \<noteq> 0)"
| "truthy (JFloat q) = (q \<noteq> 0)"
| "truthy (JStr s) = (s \<noteq> [])"
| "truthy (JArr xs) = (xs \<noteq> [])"
| "truthy (JObj kvs) = (kvs \<noteq> [])"

text \<open>\<^verbatim>\<open>d.get(k, default)\<close> on a dict.\<close>

definition dict_get :: "dict \<Rightarrow> string \<Rightarrow> json \<Rightarrow> json" where
  "dict_get d k dflt = (case map_of d k of Some v \<Rightarrow> v | None \<Rightarrow> dflt)"

text \<open>\<^verbatim>\<open>d[k] = v\<close>: an existing key keeps its position, a new key goes last.\<close>

fun dict_set :: "dict \<Rightarrow> string \<Rightarrow> json \<Rightarrow> dict" where
  "dict_set [] k v = [(k, v)]"
| "dict_set (p # ps) k v = (if fst p = k then (k, v) # ps else p # dict_set ps k v)"

text \<open>\<^verbatim>\<open>d[k].append(x)\<close>, with the errors of a missing key and of a non-list value.\<close>

definition dict_append :: "dict \<Rightarrow> string \<Rightarrow> json \<Rightarrow> py_error + dict" where
  "dict_append d k x =
     (case map_of d k of
        None \<Rightarrow> Inl (KeyError k)
      | Some (JArr xs) \<Rightarrow> Inr (dict_set d k (JArr (xs @ [x])))
      | Some _ \<Rightarrow> Inl AttributeError)"

text \<open>
  \<^verbatim>\<open>obj[key]\<close> with a string key: a dict looks the key up; a list or a string takes
  integer indices only, and the other values are not subscriptable.
\<close>

fun py_getitem :: "json \<Rightarrow> string \<Rightarrow> py_error + json" where
  "py_getitem (JObj d) k = (case map_of d k of Some v \<Rightarrow> Inr v | None \<Rightarrow> Inl (KeyError k))"
| "py_getitem _ k = Inl TypeError"

text \<open>
  \<^verbatim>\<open>for x in obj\<close>: a list yields its elements, a dict its keys, a string its
  characters; nothing else is iterable.
\<close>

fun py_iter :: "json \<Rightarrow> py_error + json list" where
  "py_iter (JArr xs) = Inr xs"
| "py_iter (JObj d) = Inr (map (\<lambda>p. JStr (fst p)) d)"
| "py_iter (JStr s) = Inr (map (\<lambda>c. JStr [c]) s)"
| "py_iter _ = Inl TypeError"

text \<open>
  \<^verbatim>\<open>str(v)\<close>, as an f-string placeholder renders a value: a string is itself, any other
  value is rendered as its \<^verbatim>\<open>repr\<close>, which is the interpreter's and is a parameter.
\<close>

definition py_str :: "(json \<Rightarrow> string) \<Rightarrow> json \<Rightarrow> string" where
  "py_str repr v = (case v of JStr s \<Rightarrow> s | _ \<Rightarrow> repr v)"

section \<open>Scene Validator (validator.py)\<close>

text \<open>
  The test \<^verbatim>\<open>field not in scene_data or not scene_data[field]\<close> of
  \<^verbatim>\<open>validate_scene\<close>. The keys of a loaded scene are strings, so a hashable field
  that is not a string is never among them; a list or a dict is unhashable.
\<close>

fun field_missing :: "dict \<Rightarrow> json \<Rightarrow> py_error + bool" where
  "field_missing scene_data (JStr f) =
     Inr (case map_of scene_data f of None \<Rightarrow> True | Some v \<Rightarrow> \<not> truthy v)"
| "field_missing scene_data (JArr xs) = Inl TypeError"
| "field_missing scene_data (JObj d) = Inl TypeError"
| "field_missing scene_data _ = Inr True"

text \<open>The loop over the required metadata, mutating \<^verbatim>\<open>results\<close>.\<close>

fun check_required :: "(json \<Rightarrow> string) \<Rightarrow> dict \<Rightarrow> json list \<Rightarrow> dict \<Rightarrow> py_error + dict" where
  "check_required repr scene_data [] results = Inr results"
| "check_required repr scene_data (field # fields) results =
     (case field_missing scene_data field of
        Inl e \<Rightarrow> Inl e
      | Inr False \<Rightarrow> check_required repr scene_data fields results
      | Inr True \<Rightarrow>
          (case dict_append (dict_set results ''valid'' (JBool False)) ''errors''
                  (JStr (''Missing required metadata: '' @ py_str repr field)) of
             Inl e \<Rightarrow> Inl e
           | Inr results' \<Rightarrow> check_required repr scene_data fields results'))"

text \<open>
  The iterable of the loop, \<^verbatim>\<open>self.validation_rules["scene_structure"]["required_metadata"]\<close>.
\<close>

definition required_fields :: "json \<Rightarrow> py_error + json list" where
  "required_fields rules =
     (case py_getitem rules ''scene_structure'' of
        Inl e \<Rightarrow> Inl e
      | Inr scene_structure \<Rightarrow>
          (case py_getitem scene_structure ''required_metadata'' of
             Inl e \<Rightarrow> Inl e
           | Inr required_metadata \<Rightarrow> py_iter required_metadata))"

text \<open>
  \<^verbatim>\<open>SceneValidator.validate_scene\<close>. \<open>rules\<close> is \<^verbatim>\<open>self.validation_rules\<close>,
  \<open>now\<close> is what \<^verbatim>\<open>datetime.now().isoformat()\<close> returns at this call. The first
  statement calls \<^verbatim>\<open>scene_data.get\<close>, which only a dict has. Logging is not modelled.
\<close>

definition validate_scene :: "(json \<Rightarrow> string) \<Rightarrow> json \<Rightarrow> string \<Rightarrow> json \<Rightarrow> py_error + dict" where
  "validate_scene repr rules now scene_data =
     (case scene_data of
        JObj sd \<Rightarrow>
          (let results =
                 [(''scene_id'', dict_get sd ''scene_id'' (JStr ''unknown'')),
                  (''timestamp'', JStr now),
                  (''valid'', JBool True),
                  (''errors'', JArr []),
                  (''warnings'', JArr []),
                  (''suggestions'', JArr [])]
           in case required_fields rules of
                Inl e \<Rightarrow> Inl e
              | Inr fields \<Rightarrow> check_required repr sd fields results)
      | _ \<Rightarrow> Inl AttributeError)"

text \<open>The rules \<^verbatim>\<open>_load_validation_rules\<close> falls back to when the rules file is missing.\<close>

definition default_rules :: json where
  "default_rules =
     JObj [(''scene_structure'',
              JObj [(''required_metadata'', JArr [JStr ''scene_id'', JStr ''timestamp'', JStr ''location'']),
                    (''optional_metadata'', JArr [JStr ''weather'', JStr ''time_of_day'', JStr ''camera_setup''])]),
           (''continuity'',
              JObj [(''check_character_presence'', JBool True),
                    (''check_props'', JBool True),
                    (''check_lighting'', JBool True),
                    (''check_environment'', JBool True)])]"

text \<open>\<^verbatim>\<open>d[k] += 1\<close> on a dict entry.\<close>

definition dict_incr :: "dict \<Rightarrow> string \<Rightarrow> py_error + dict" where
  "dict_incr d k =
     (case map_of d k of
        None \<Rightarrow> Inl (KeyError k)
      | Some (JInt i) \<Rightarrow> Inr (dict_set d k (JInt (i + 1)))
      | Some (JBool b) \<Rightarrow> Inr (dict_set d k (JInt (of_bool b + 1)))
      | Some (JFloat q) \<Rightarrow> Inr (dict_set d k (JFloat (q + 1)))
      | Some _ \<Rightarrow> Inl TypeError)"

text \<open>
  The loop of \<^verbatim>\<open>validate_project\<close> over the scenes. \<open>clk k\<close> is what the \<open>k\<close>-th call of
  \<^verbatim>\<open>datetime.now().isoformat()\<close> made since \<^verbatim>\<open>validate_project\<close> was entered
  returns; \<open>n\<close> counts the calls made so far.
\<close>

fun validate_scenes ::
  "(json \<Rightarrow> string) \<Rightarrow> json \<Rightarrow> (nat \<Rightarrow> string) \<Rightarrow> nat \<Rightarrow> json list \<Rightarrow> dict \<Rightarrow> py_error + dict" where
  "validate_scenes repr rules clk n [] results = Inr results"
| "validate_scenes repr rules clk n (scene # scenes) results =
     (case validate_scene repr rules (clk n) scene of
        Inl e \<Rightarrow> Inl e
      | Inr scene_result \<Rightarrow>
          (case dict_append results ''scene_results'' (JObj scene_result) of
             Inl e \<Rightarrow> Inl e
           | Inr results1 \<Rightarrow>
               (case py_getitem (JObj scene_result) ''valid'' of
                  Inl e \<Rightarrow> Inl e
                | Inr v \<Rightarrow>
                    (case dict_incr results1 (if truthy v then ''valid_scenes'' else ''invalid_scenes'') of
                       Inl e \<Rightarrow> Inl e
                     | Inr results2 \<Rightarrow> validate_scenes repr rules clk (Suc n) scenes results2))))"

text \<open>
  \<^verbatim>\<open>SceneValidator.validate_project\<close>, on a Python list of scenes. The dict literal
  evaluates \<^verbatim>\<open>project_data[0].get(...)\<close> before it reads the clock.
\<close>

definition validate_project ::
  "(json \<Rightarrow> string) \<Rightarrow> json \<Rightarrow> (nat \<Rightarrow> string) \<Rightarrow> json list \<Rightarrow> py_error + dict" where
  "validate_project repr rules clk project_data =
     (case (case project_data of
              [] \<Rightarrow> Inr (JStr ''unknown'')
            | JObj d # _ \<Rightarrow> Inr (dict_get d ''project_id'' (JStr ''unknown''))
            | _ # _ \<Rightarrow> Inl AttributeError) of
        Inl e \<Rightarrow> Inl e
      | Inr project_id \<Rightarrow>
          validate_scenes repr rules clk 1 project_data
            [(''project_id'', project_id),
             (''timestamp'', JStr (clk 0)),
             (''scene_count'', JInt (int (length project_data))),
             (''valid_scenes'', JInt 0),
             (''invalid_scenes'', JInt 0),
             (''scene_results'', JArr []),
             (''project_level_issues'', JArr [])])"

section \<open>Report Renderer (validator.py)\<close>

text \<open>
  \<^verbatim>\<open>str.format\<close> called with keyword arguments only, as a scanner over the template.
  A doubled brace is a literal brace and a single closing brace is an error. After an
  opening brace the field name runs to the closing brace, or to a colon or an exclamation
  mark; in the name a bracket skips to its closing bracket and an opening brace is an
  error. A conversion is one character; a format specification runs to its matching closing
  brace. The argument is looked up when the field is complete: an empty or numeric argument
  name indexes the positional arguments, of which there are none, and any other name is a
  key of the keyword arguments. Fields are handled from left to right and the first error
  ends the call.
\<close>

datatype format_state =
    Text
  | SawOpen
  | SawClose
  | FieldName string
  | FieldBracket string
  | Conversion string
  | AfterConversion string
  | FormatSpec string bool nat

text \<open>The argument name of a field name: what precedes the first dot or bracket.\<close>

definition arg_name :: "string \<Rightarrow> string" where
  "arg_name field_name = takeWhile (\<lambda>c. c \<noteq> CHR ''.'' \<and> c \<noteq> CHR ''['') field_name"

definition is_digit :: "char \<Rightarrow> bool" where
  "is_digit c = (c \<in> set ''0123456789'')"

text \<open>
  The text that replaces a completed field; \<open>kwargs\<close> holds the keyword arguments,
  already rendered by \<^verbatim>\<open>str\<close>. \<open>extras\<close> says that the field has a conversion or a
  non-empty format specification. The lookup comes first. What a field with an attribute,
  an index, a conversion or a format specification renders to once its argument is found
  is not modelled: \<open>Unmodelled\<close> marks that limit.
\<close>

definition render_field :: "(string \<times> string) list \<Rightarrow> string \<Rightarrow> bool \<Rightarrow> py_error + string" where
  "render_field kwargs field_name extras =
     (let first = arg_name field_name
      in if first = [] \<or> list_all is_digit first then Inl IndexError
         else (case map_of kwargs first of
                 None \<Rightarrow> Inl (KeyError first)
               | Some v \<Rightarrow>
                   if extras \<or> first \<noteq> field_name then Inl Unmodelled else Inr v))"

text \<open>
  One character inside a field name: the output produced and the next state, or the error.
\<close>

definition field_name_step ::
  "(string \<times> string) list \<Rightarrow> string \<Rightarrow> char \<Rightarrow> py_error + (string \<times> format_state)" where
  "field_name_step kwargs name c =
     (if c = CHR ''{'' then Inl ValueError
      else if c = CHR ''['' then Inr ([], FieldBracket (name @ [c]))
      else if c = CHR ''}'' then
        (case render_field kwargs name False of
           Inl e \<Rightarrow> Inl e
         | Inr v \<Rightarrow> Inr (v, Text))
      else if c = CHR '':'' then Inr ([], FormatSpec name False 0)
      else if c = CHR ''!'' then Inr ([], Conversion name)
      else Inr ([], FieldName (name @ [c])))"

fun format_step ::
  "(string \<times> string) list \<Rightarrow> format_state \<Rightarrow> char \<Rightarrow> py_error + (string \<times> format_state)" where
  "format_step kwargs Text c =
     (if c = CHR ''{'' then Inr ([], SawOpen)
      else if c = CHR ''}'' then Inr ([], SawClose)
      else Inr ([c], Text))"
| "format_step kwargs SawClose c =
     (if c = CHR ''}'' then Inr ([c], Text) else Inl ValueError)"
| "format_step kwargs SawOpen c =
     (if c = CHR ''{'' then Inr ([c], Text) else field_name_step kwargs [] c)"
| "format_step kwargs (FieldName name) c = field_name_step kwargs name c"
| "format_step kwargs (FieldBracket name) c =
     (if c = CHR '']'' then Inr ([], FieldName (name @ [c]))
      else Inr ([], FieldBracket (name @ [c])))"
| "format_step kwargs (Conversion name) c = Inr ([], AfterConversion name)"
| "format_step kwargs (AfterConversion name) c =
     (if c = CHR ''}'' then
        (case render_field kwargs name True of
           Inl e \<Rightarrow> Inl e
         | Inr v \<Rightarrow> Inr (v, Text))
      else if c = CHR '':'' then Inr ([], FormatSpec name True 0)
      else Inl ValueError)"
| "format_step kwargs (FormatSpec name extras depth) c =
     (if c = CHR ''{'' then Inr ([], FormatSpec name True (Suc depth))
      else if c = CHR ''}'' then
        (case depth of
           0 \<Rightarrow>
             (case render_field kwargs name extras of
                Inl e \<Rightarrow> Inl e
              | Inr v \<Rightarrow> Inr (v, Text))
         | Suc d \<Rightarrow> Inr ([], FormatSpec name True d))
      else Inr ([], FormatSpec name True depth))"

fun format_scan :: "(string \<times> string) list \<Rightarrow> format_state \<Rightarrow> string \<Rightarrow> py_error + string" where
  "format_scan kwargs st [] = (if st = Text then Inr [] else Inl ValueError)"
| "format_scan kwargs st (c # cs) =
     (case format_step kwargs st c of
        Inl e \<Rightarrow> Inl e
      | Inr (out, st') \<Rightarrow>
          (case format_scan kwargs st' cs of
             Inl e \<Rightarrow> Inl e
           | Inr rest \<Rightarrow> Inr (out @ rest)))"

definition py_format :: "string \<Rightarrow> (string \<times> string) list \<Rightarrow> py_error + string" where
  "py_format template kwargs = format_scan kwargs Text template"

text \<open>The template of \<^verbatim>\<open>_generate_html_report\<close>, character for character.\<close>

definition html_template :: string where
  \<open>html_template =
     ''\<newline>'' @
     ''        <!DOCTYPE html>\<newline>'' @
     ''        <html>\<newline>'' @
     ''        <head>\<newline>'' @
     ''            <title>Scene Validation Report</title>\<newline>'' @
     ''            <style>\<newline>'' @
     ''                body { font-family: Arial, sans-serif; margin: 20px; }\<newline>'' @
     ''                h1 { color: #333; }\<newline>'' @
     ''                .summary { background-color: #f5f5f5; padding: 15px; border-radius: 5px; }\<newline>'' @
     ''                .valid { color: green; }\<newline>'' @
     ''                .invalid { color: red; }\<newline>'' @
     ''                .warning { color: orange; }\<newline>'' @
     ''                .scene { margin: 20px 0; padding: 10px; border: 1px solid #ddd; border-radius: 5px; }\<newline>'' @
     ''                .issue-list { margin-left: 20px; }\<newline>'' @
     ''            </style>\<newline>'' @
     ''        </head>\<newline>'' @
     ''        <body>\<newline>'' @
     ''            <h1>Scene Validation Report</h1>\<newline>'' @
     ''            <div class="summary">\<newline>'' @
     ''                <h2>Summary</h2>\<newline>'' @
     ''                <p>Project ID: {project_id}</p>\<newline>'' @
     ''                <p>Timestamp: {timestamp}</p>\<newline>'' @
     ''                <p>Total Scenes: {scene_count}</p>\<newline>'' @
     ''                <p>Valid Scenes: <span class="valid">{valid_scenes}</span></p>\<newline>'' @
     ''                <p>Invalid Scenes: <span class="invalid">{invalid_scenes}</span></p>\<newline>'' @
     ''            </div>\<newline>'' @
     ''            \<newline>'' @
     ''            <h2>Scene Details</h2>\<newline>'' @
     ''            {scene_results}\<newline>'' @
     ''            \<newline>'' @
     ''            <h2>Project-Level Issues</h2>\<newline>'' @
     ''            <ul class="issue-list">\<newline>'' @
     ''                {project_issues}\<newline>'' @
     ''            </ul>\<newline>'' @
     ''        </body>\<newline>'' @
     ''        </html>\<newline>'' @
     ''        ''\<close>

text \<open>\<^verbatim>\<open>"".join(f"<li>{x}</li>" for x in xs)\<close>\<close>

definition li_items :: "(json \<Rightarrow> string) \<Rightarrow> json list \<Rightarrow> string" where
  "li_items repr xs = concat (map (\<lambda>x. ''<li>'' @ py_str repr x @ ''</li>'') xs)"

text \<open>
  The body of the loop over \<^verbatim>\<open>scene_results\<close>: the text one scene adds to
  \<^verbatim>\<open>scene_results_html\<close>. \<^verbatim>\<open>scene.get\<close> needs a dict, and the three lists are iterated.
\<close>

definition scene_html :: "(json \<Rightarrow> string) \<Rightarrow> json \<Rightarrow> py_error + string" where
  \<open>scene_html repr scene_value =
     (case scene_value of
        JObj scene \<Rightarrow>
          (let scene_class = (if truthy (dict_get scene ''valid'' (JBool True)) then ''valid'' else ''invalid'')
           in case py_iter (dict_get scene ''errors'' (JArr [])) of
                Inl e \<Rightarrow> Inl e
              | Inr errors \<Rightarrow>
                  (case py_iter (dict_get scene ''warnings'' (JArr [])) of
                     Inl e \<Rightarrow> Inl e
                   | Inr warnings \<Rightarrow>
                       (case py_iter (dict_get scene ''suggestions'' (JArr [])) of
                          Inl e \<Rightarrow> Inl e
                        | Inr suggestions \<Rightarrow>
                            Inr (
              ''\<newline>'' @
              ''            <div class="scene">\<newline>'' @
              ''                <h3>Scene: '' @
              py_str repr (dict_get scene ''scene_id'' (JStr ''Unknown'')) @
              '' - <span class="'' @
              scene_class @
              ''">\<newline>'' @
              ''                    '' @
              (if truthy (dict_get scene ''valid'' (JBool True)) then ''Valid'' else ''Invalid'') @
              ''</span></h3>\<newline>'' @
              ''                \<newline>'' @
              ''                <h4>Errors:</h4>\<newline>'' @
              ''                <ul class="issue-list">\<newline>'' @
              ''                    '' @
              li_items repr errors @
              ''\<newline>'' @
              ''                </ul>\<newline>'' @
              ''                \<newline>'' @
              ''                <h4>Warnings:</h4>\<newline>'' @
              ''                <ul class="issue-list warning">\<newline>'' @
              ''                    '' @
              li_items repr warnings @
              ''\<newline>'' @
              ''                </ul>\<newline>'' @
              ''                \<newline>'' @
              ''                <h4>Suggestions:</h4>\<newline>'' @
              ''                <ul class="issue-list">\<newline>'' @
              ''                    '' @
              li_items repr suggestions @
              ''\<newline>'' @
              ''                </ul>\<newline>'' @
              ''            </div>\<newline>'' @
              ''            ''))))
      | _ \<Rightarrow> Inl AttributeError)\<close>

fun scenes_html :: "(json \<Rightarrow> string) \<Rightarrow> json list \<Rightarrow> string \<Rightarrow> py_error + string" where
  "scenes_html repr [] scene_results_html = Inr scene_results_html"
| "scenes_html repr (scene # scenes) scene_results_html =
     (case scene_html repr scene of
        Inl e \<Rightarrow> Inl e
      | Inr h \<Rightarrow> scenes_html repr scenes (scene_results_html @ h))"

fun issues_html :: "(json \<Rightarrow> string) \<Rightarrow> json list \<Rightarrow> string \<Rightarrow> string" where
  "issues_html repr [] project_issues_html = project_issues_html"
| "issues_html repr (issue # issues) project_issues_html =
     issues_html repr issues (project_issues_html @ ''<li>'' @ py_str repr issue @ ''</li>'')"

text \<open>\<^verbatim>\<open>SceneValidator._generate_html_report\<close>.\<close>

definition generate_html_report :: "(json \<Rightarrow> string) \<Rightarrow> dict \<Rightarrow> py_error + string" where
  "generate_html_report repr validation_results =
     (case py_iter (dict_get validation_results ''scene_results'' (JArr [])) of
        Inl e \<Rightarrow> Inl e
      | Inr scenes \<Rightarrow>
          (case scenes_html repr scenes [] of
             Inl e \<Rightarrow> Inl e
           | Inr scene_results_html \<Rightarrow>
               (case py_iter (dict_get validation_results ''project_level_issues'' (JArr [])) of
                  Inl e \<Rightarrow> Inl e
                | Inr issues \<Rightarrow>
                    py_format html_template
                      [(''project_id'', py_str repr (dict_get validation_results ''project_id'' (JStr ''Unknown''))),
                       (''timestamp'', py_str repr (dict_get validation_results ''timestamp'' (JStr ''Unknown''))),
                       (''scene_count'', py_str repr (dict_get validation_results ''scene_count'' (JInt 0))),
                       (''valid_scenes'', py_str repr (dict_get validation_results ''valid_scenes'' (JInt 0))),
                       (''invalid_scenes'', py_str repr (dict_get validation_results ''invalid_scenes'' (JInt 0))),
                       (''scene_results'', scene_results_html),
                       (''project_issues'', issues_html repr issues [])])))"

text \<open>\<^verbatim>\<open>str.lower\<close> on the ASCII letters.\<close>

definition lower_char :: "char \<Rightarrow> char" where
  "lower_char c =
     (case map_of (zip ''ABCDEFGHIJKLMNOPQRSTUVWXYZ'' ''abcdefghijklmnopqrstuvwxyz'') c of
        Some l \<Rightarrow> l
      | None \<Rightarrow> c)"

definition py_lower :: "string \<Rightarrow> string" where
  "py_lower s = map lower_char s"

text \<open>
  The files a report is written to: the contents by path, and the paths that
  \<^verbatim>\<open>open(path, "w")\<close> can open.
\<close>

datatype filesystem =
  Filesystem (files: "string \<Rightarrow> string option") (writable: "string \<Rightarrow> bool")

definition write_file :: "filesystem \<Rightarrow> string \<Rightarrow> string \<Rightarrow> py_error + filesystem" where
  "write_file fs path content =
     (if writable fs path then Inr (Filesystem ((files fs)(path \<mapsto> content)) (writable fs)) else Inl OSError)"

text \<open>
  \<^verbatim>\<open>SceneValidator.generate_report\<close>. \<open>dumps v\<close> is \<^verbatim>\<open>json.dumps(v, indent=2)\<close>, the
  standard library's; \<open>config\<close> is \<^verbatim>\<open>self.config\<close>. Only a string has \<^verbatim>\<open>lower\<close>.
  The report is written when \<open>output_path\<close> is given and not empty.
\<close>

definition generate_report ::
  "(json \<Rightarrow> string) \<Rightarrow> (json \<Rightarrow> string) \<Rightarrow> dict \<Rightarrow> dict \<Rightarrow> string option \<Rightarrow> filesystem
     \<Rightarrow> py_error + (string \<times> filesystem)" where
  "generate_report dumps repr config validation_results output_path fs =
     (case dict_get config ''report_format'' (JStr ''html'') of
        JStr s \<Rightarrow>
          (let format_type = py_lower s
           in case (if format_type = ''html'' then generate_html_report repr validation_results
                    else if format_type = ''json'' then Inr (dumps (JObj validation_results))
                    else Inr (dumps (JObj validation_results))) of
                Inl e \<Rightarrow> Inl e
              | Inr report \<Rightarrow>
                  (case output_path of
                     None \<Rightarrow> Inr (report, fs)
                   | Some path \<Rightarrow>
                       if path = [] then Inr (report, fs)
                       else (case write_file fs path report of
                               Inl e \<Rightarrow> Inl e
                             | Inr fs' \<Rightarrow> Inr (report, fs'))))
      | _ \<Rightarrow> Inl AttributeError)"

section \<open>LLM Judgment Client (gemini_integration.py)\<close>

text \<open>
  The analyzer object: \<^verbatim>\<open>self.api_key\<close> (\<^verbatim>\<open>None\<close> or a string), \<^verbatim>\<open>self.model\<close>
  and \<^verbatim>\<open>self.base_url\<close>.
\<close>

datatype analyzer =
  Analyzer (self_api_key: "string option") (self_model: string) (self_base_url: string)

text \<open>\<^verbatim>\<open>a or b\<close> on optional strings: \<open>a\<close> when it is a non-empty string, else \<open>b\<close>.\<close>

definition py_or :: "string option \<Rightarrow> string option \<Rightarrow> string option" where
  "py_or a b = (case a of Some (c # cs) \<Rightarrow> a | _ \<Rightarrow> b)"

text \<open>
  \<^verbatim>\<open>GeminiAnalyzer.__init__\<close>; \<open>environ\<close> is \<^verbatim>\<open>os.environ.get\<close>.
\<close>

definition GeminiAnalyzer :: "(string \<Rightarrow> string option) \<Rightarrow> string option \<Rightarrow> string \<Rightarrow> analyzer" where
  "GeminiAnalyzer environ api_key model =
     Analyzer (py_or api_key (environ ''GEMINI_API_KEY'')) model
       (''https://generativelanguage.googleapis.com/v1beta/models/'' @ model)"

text \<open>\<^verbatim>\<open>sep.join(xs)\<close> and \<^verbatim>\<open>xs[-5:]\<close>.\<close>

fun py_join :: "string \<Rightarrow> string list \<Rightarrow> string" where
  "py_join sep [] = []"
| "py_join sep [x] = x"
| "py_join sep (x # y # ys) = x @ sep @ py_join sep (y # ys)"

definition last5 :: "'a list \<Rightarrow> 'a list" where
  "last5 xs = drop (length xs - 5) xs"

text \<open>
  The three prompts. The separator of the history lines is written \<^verbatim>\<open>"\\n"\<close> in the
  source: a backslash and the letter n.
\<close>

definition create_dialogue_prompt :: "string \<Rightarrow> string \<Rightarrow> string list \<Rightarrow> string" where
  \<open>create_dialogue_prompt character current_dialogue previous_dialogues =
     (let previous_samples =
            py_join [CHR 0x5C, CHR ''n''] (map (\<lambda>d. ''- '' @ d) (last5 previous_dialogues))
      in
        ''\<newline>'' @
        ''        As an expert in screenplay analysis, assess the dialogue consistency for the character '' @
        character @
        ''.\<newline>'' @
        ''        \<newline>'' @
        ''        Previous dialogue examples:\<newline>'' @
        ''        '' @
        previous_samples @
        ''\<newline>'' @
        ''        \<newline>'' @
        ''        Current dialogue:\<newline>'' @
        ''        "'' @
        current_dialogue @
        ''"\<newline>'' @
        ''        \<newline>'' @
        ''        Please analyze if the current dialogue is consistent with the character'' @
        [CHR 0x27] @
        ''s established voice, vocabulary, speech patterns, and personality traits.\<newline>'' @
        ''        \<newline>'' @
        ''        Provide your analysis in JSON format with the following structure:\<newline>'' @
        ''        {\<newline>'' @
        ''            "is_consistent": true/false,\<newline>'' @
        ''            "confidence_score": (float between 0-1),\<newline>'' @
        ''            "inconsistency_reasons": ["reason1", "reason2"],\<newline>'' @
        ''            "suggestions": ["suggestion1", "suggestion2"]\<newline>'' @
        ''        }\<newline>'' @
        ''        '')\<close>

definition create_emotion_prompt :: "(json \<Rightarrow> string) \<Rightarrow> string \<Rightarrow> string \<Rightarrow> dict list \<Rightarrow> string" where
  \<open>create_emotion_prompt repr character current_emotion previous_emotions =
     (let emotion_history =
            py_join [CHR 0x5C, CHR ''n'']
              (map (\<lambda>e. ''- Scene '' @ py_str repr (dict_get e ''scene_id'' (JStr ''unknown'')) @
                         '': '' @ py_str repr (dict_get e ''emotion'' JNull) @
                         '' - Context: '' @ py_str repr (dict_get e ''context'' (JStr ''N/A'')))
                 (last5 previous_emotions))
      in
        ''\<newline>'' @
        ''        As an expert in character psychology and narrative continuity, assess the emotional continuity for the character '' @
        character @
        ''.\<newline>'' @
        ''        \<newline>'' @
        ''        Previous emotional states:\<newline>'' @
        ''        '' @
        emotion_history @
        ''\<newline>'' @
        ''        \<newline>'' @
        ''        Current emotional state:\<newline>'' @
        ''        "'' @
        current_emotion @
        ''"\<newline>'' @
        ''        \<newline>'' @
        ''        Please analyze if the current emotional state is consistent with the character'' @
        [CHR 0x27] @
        ''s emotional arc and if the transition from previous emotions is plausible.\<newline>'' @
        ''        \<newline>'' @
        ''        Provide your analysis in JSON format with the following structure:\<newline>'' @
        ''        {\<newline>'' @
        ''            "is_consistent": true/false,\<newline>'' @
        ''            "confidence_score": (float between 0-1),\<newline>'' @
        ''            "inconsistency_reasons": ["reason1", "reason2"],\<newline>'' @
        ''            "justification": "explanation of your reasoning",\<newline>'' @
        ''            "suggestions": ["suggestion1", "suggestion2"]\<newline>'' @
        ''        }\<newline>'' @
        ''        '')\<close>

definition create_narrative_prompt :: "(json \<Rightarrow> string) \<Rightarrow> string \<Rightarrow> dict list \<Rightarrow> string" where
  \<open>create_narrative_prompt repr scene_description previous_scenes =
     (let scene_history =
            py_join [CHR 0x5C, CHR ''n'']
              (map (\<lambda>s. ''- Scene '' @ py_str repr (dict_get s ''scene_id'' (JStr ''unknown'')) @
                         '': '' @ py_str repr (dict_get s ''brief_description'' (JStr ''N/A'')))
                 (last5 previous_scenes))
      in
        ''\<newline>'' @
        ''        As an expert in narrative structure and screenplay analysis, assess the narrative coherence of the following scene.\<newline>'' @
        ''        \<newline>'' @
        ''        Previous scenes:\<newline>'' @
        ''        '' @
        scene_history @
        ''\<newline>'' @
        ''        \<newline>'' @
        ''        Current scene:\<newline>'' @
        ''        "'' @
        scene_description @
        ''"\<newline>'' @
        ''        \<newline>'' @
        ''        Please analyze if the current scene maintains narrative coherence with the established story. Consider plot progression, character motivations, and logical continuity.\<newline>'' @
        ''        \<newline>'' @
        ''        Provide your analysis in JSON format with the following structure:\<newline>'' @
        ''        {\<newline>'' @
        ''            "is_coherent": true/false,\<newline>'' @
        ''            "confidence_score": (float between 0-1),\<newline>'' @
        ''            "coherence_issues": ["issue1", "issue2"],\<newline>'' @
        ''            "plot_continuity_score": (float between 0-1),\<newline>'' @
        ''            "character_motivation_score": (float between 0-1),\<newline>'' @
        ''            "logical_consistency_score": (float between 0-1),\<newline>'' @
        ''            "suggestions": ["suggestion1", "suggestion2"]\<newline>'' @
        ''        }\<newline>'' @
        ''        '')\<close>

text \<open>
  \<^verbatim>\<open>_call_gemini_api\<close>. \<open>post url body\<close> is the outcome of
  \<^verbatim>\<open>requests.post(url, headers, json=body)\<close> followed by \<^verbatim>\<open>raise_for_status\<close> and
  \<^verbatim>\<open>response.json()\<close>: the message of the \<^verbatim>\<open>RequestException\<close> raised, or the decoded
  body. The function returns its result together with the requests it has sent.
\<close>

definition call_gemini_api ::
  "(string \<Rightarrow> json \<Rightarrow> string + json) \<Rightarrow> analyzer \<Rightarrow> string \<Rightarrow> json \<times> (string \<times> json) list" where
  "call_gemini_api post self prompt =
     (case self_api_key self of
        Some (c # cs) \<Rightarrow>
          (let data = JObj [(''contents'', JArr [JObj [(''parts'', JArr [JObj [(''text'', JStr prompt)]])]]),
                            (''generationConfig'',
                               JObj [(''temperature'', JFloat (2 / 10)),
                                     (''topP'', JFloat (8 / 10)),
                                     (''topK'', JInt 40),
                                     (''maxOutputTokens'', JInt 1024)])];
               url = self_base_url self @ '':generateContent?key='' @ (c # cs)
           in (case post url data of
                 Inr body \<Rightarrow> body
               | Inl msg \<Rightarrow> JObj [(''error'', JStr msg)],
               [(url, data)]))
      | _ \<Rightarrow> (JObj [(''error'', JStr ''No API key provided'')], []))"

text \<open>\<^verbatim>\<open>"error" in response\<close>: a key of a dict, an element of a list, a substring of a string.\<close>

fun is_substring :: "string \<Rightarrow> string \<Rightarrow> bool" where
  "is_substring p [] = (p = [])"
| "is_substring p (c # cs) = (take (length p) (c # cs) = p \<or> is_substring p cs)"

fun py_contains :: "json \<Rightarrow> string \<Rightarrow> py_error + bool" where
  "py_contains (JObj d) k = Inr (k \<in> fst ` set d)"
| "py_contains (JArr xs) k = Inr (JStr k \<in> set xs)"
| "py_contains (JStr s) k = Inr (is_substring k s)"
| "py_contains _ k = Inl TypeError"

text \<open>\<^verbatim>\<open>obj.get(key, default)\<close>: only a dict has \<^verbatim>\<open>get\<close>.\<close>

fun py_get :: "json \<Rightarrow> string \<Rightarrow> json \<Rightarrow> py_error + json" where
  "py_get (JObj d) k dflt = Inr (dict_get d k dflt)"
| "py_get _ k dflt = Inl AttributeError"

text \<open>
  \<^verbatim>\<open>obj[0]\<close>: the first element of a list, the first character of a string; a loaded dict
  has no key 0.
\<close>

fun py_first :: "json \<Rightarrow> py_error + json" where
  "py_first (JArr []) = Inl IndexError"
| "py_first (JArr (x # xs)) = Inr x"
| "py_first (JStr []) = Inl IndexError"
| "py_first (JStr (c # cs)) = Inr (JStr [c])"
| "py_first (JObj d) = Inl (KeyError ''0'')"
| "py_first _ = Inl TypeError"

text \<open>\<^verbatim>\<open>obj[key] = value\<close> with a string key.\<close>

fun py_setitem :: "json \<Rightarrow> string \<Rightarrow> json \<Rightarrow> py_error + json" where
  "py_setitem (JObj d) k v = Inr (JObj (dict_set d k v))"
| "py_setitem _ k v = Inl TypeError"

text \<open>
  \<^verbatim>\<open>s.find(c)\<close> and \<^verbatim>\<open>s.rfind(c)\<close> for a one-character \<open>c\<close>: the index of the first and
  of the last occurrence, or -1. \<^verbatim>\<open>s[a:b]\<close> for indices that are not negative.
\<close>

fun py_find :: "char \<Rightarrow> string \<Rightarrow> int" where
  "py_find c [] = - 1"
| "py_find c (x # xs) =
     (if x = c then 0 else (let i = py_find c xs in if i < 0 then - 1 else i + 1))"

definition py_rfind :: "char \<Rightarrow> string \<Rightarrow> int" where
  "py_rfind c s = (let i = py_find c (rev s) in if i < 0 then - 1 else int (length s) - 1 - i)"

definition py_slice :: "string \<Rightarrow> int \<Rightarrow> int \<Rightarrow> string" where
  "py_slice s a b = drop (nat a) (take (nat b) s)"

text \<open>
  The text of the reply, \<^verbatim>\<open>response.get("candidates", [{}])[0].get("content", {})\<close>
  and then \<^verbatim>\<open>content.get("parts", [{}])[0].get("text", "")\<close>.
\<close>

definition reply_text :: "json \<Rightarrow> py_error + json" where
  "reply_text response =
     (case py_get response ''candidates'' (JArr [JObj []]) of
        Inl e \<Rightarrow> Inl e
      | Inr candidates \<Rightarrow>
          (case py_first candidates of
             Inl e \<Rightarrow> Inl e
           | Inr candidate \<Rightarrow>
               (case py_get candidate ''content'' (JObj []) of
                  Inl e \<Rightarrow> Inl e
                | Inr content \<Rightarrow>
                    (case py_get content ''parts'' (JArr [JObj []]) of
                       Inl e \<Rightarrow> Inl e
                     | Inr parts \<Rightarrow>
                         (case py_first parts of
                            Inl e \<Rightarrow> Inl e
                          | Inr part \<Rightarrow> py_get part ''text'' (JStr []))))))"

text \<open>
  The body of the \<^verbatim>\<open>try\<close> of \<^verbatim>\<open>_parse_dialogue_analysis\<close>. \<open>loads\<close> is
  \<^verbatim>\<open>json.loads\<close>, the standard library's: the parsed value, or the message of the error
  it raises. Only a string has \<^verbatim>\<open>find\<close>.
\<close>

definition parse_body :: "(string \<Rightarrow> string + json) \<Rightarrow> json \<Rightarrow> py_error + json" where
  "parse_body loads response =
     (case py_contains response ''error'' of
        Inl e \<Rightarrow> Inl e
      | Inr True \<Rightarrow>
          (case py_getitem response ''error'' of
             Inl e \<Rightarrow> Inl e
           | Inr err \<Rightarrow> Inr (JObj [(''success'', JBool False), (''error'', err)]))
      | Inr False \<Rightarrow>
          (case reply_text response of
             Inl e \<Rightarrow> Inl e
           | Inr (JStr text) \<Rightarrow>
               (let json_start = py_find CHR ''{'' text;
                    json_end = py_rfind CHR ''}'' text + 1
                in if json_start \<ge> 0 \<and> json_end > json_start then
                     (case loads (py_slice text json_start json_end) of
                        Inl msg \<Rightarrow> Inl (JSONDecodeError msg)
                      | Inr analysis \<Rightarrow> py_setitem analysis ''success'' (JBool True))
                   else Inr (JObj [(''success'', JBool False),
                                   (''error'', JStr ''Could not extract JSON from response''),
                                   (''raw_response'', JStr text)]))
           | Inr _ \<Rightarrow> Inl AttributeError))"

text \<open>
  \<^verbatim>\<open>_parse_dialogue_analysis\<close>: the \<^verbatim>\<open>except Exception\<close> clause turns every error of the
  body into a failure record. \<open>exc_str e\<close> is \<^verbatim>\<open>str(e)\<close>, the interpreter's message.
  \<^verbatim>\<open>_parse_emotion_analysis\<close> and \<^verbatim>\<open>_parse_narrative_analysis\<close> call it unchanged.
\<close>

definition parse_dialogue_analysis ::
  "(string \<Rightarrow> string + json) \<Rightarrow> (py_error \<Rightarrow> string) \<Rightarrow> json \<Rightarrow> json" where
  "parse_dialogue_analysis loads exc_str response =
     (case parse_body loads response of
        Inr analysis \<Rightarrow> analysis
      | Inl e \<Rightarrow> JObj [(''success'', JBool False),
                        (''error'', JStr (exc_str e)),
                        (''raw_response'', response)])"

definition parse_emotion_analysis ::
  "(string \<Rightarrow> string + json) \<Rightarrow> (py_error \<Rightarrow> string) \<Rightarrow> json \<Rightarrow> json" where
  "parse_emotion_analysis loads exc_str response = parse_dialogue_analysis loads exc_str response"

definition parse_narrative_analysis ::
  "(string \<Rightarrow> string + json) \<Rightarrow> (py_error \<Rightarrow> string) \<Rightarrow> json \<Rightarrow> json" where
  "parse_narrative_analysis loads exc_str response = parse_dialogue_analysis loads exc_str response"

text \<open>
  The three analysis operations: the judgment returned, and the requests sent to the
  network on the way.
\<close>

definition analyze_dialogue_consistency ::
  "(string \<Rightarrow> json \<Rightarrow> string + json) \<Rightarrow> (string \<Rightarrow> string + json) \<Rightarrow> (py_error \<Rightarrow> string)
     \<Rightarrow> analyzer \<Rightarrow> string \<Rightarrow> string \<Rightarrow> string list \<Rightarrow> json \<times> (string \<times> json) list" where
  "analyze_dialogue_consistency post loads exc_str self character current_dialogue previous_dialogues =
     (let prompt = create_dialogue_prompt character current_dialogue previous_dialogues;
          (response, sent) = call_gemini_api post self prompt
      in (parse_dialogue_analysis loads exc_str response, sent))"

definition analyze_emotional_continuity ::
  "(string \<Rightarrow> json \<Rightarrow> string + json) \<Rightarrow> (string \<Rightarrow> string + json) \<Rightarrow> (py_error \<Rightarrow> string)
     \<Rightarrow> (json \<Rightarrow> string) \<Rightarrow> analyzer \<Rightarrow> string \<Rightarrow> string \<Rightarrow> dict list \<Rightarrow> json \<times> (string \<times> json) list" where
  "analyze_emotional_continuity post loads exc_str repr self character current_emotion previous_emotions =
     (let prompt = create_emotion_prompt repr character current_emotion previous_emotions;
          (response, sent) = call_gemini_api post self prompt
      in (parse_emotion_analysis loads exc_str response, sent))"

definition analyze_scene_narrative ::
  "(string \<Rightarrow> json \<Rightarrow> string + json) \<Rightarrow> (string \<Rightarrow> string + json) \<Rightarrow> (py_error \<Rightarrow> string)
     \<Rightarrow> (json \<Rightarrow> string) \<Rightarrow> analyzer \<Rightarrow> string \<Rightarrow> dict list \<Rightarrow> json \<times> (string \<times> json) list" where
  "analyze_scene_narrative post loads exc_str repr self scene_description previous_scenes =
     (let prompt = create_narrative_prompt repr scene_description previous_scenes;
          (response, sent) = call_gemini_api post self prompt
      in (parse_narrative_analysis loads exc_str response, sent))"

section \<open>Directory Watcher (trigger.py)\<close>

text \<open>
  Times are naive local datetimes, counted in microseconds; \<^verbatim>\<open>datetime.now()\<close> and the
  modification time of a file are read from the environment.
\<close>

type_synonym datetime = int

text \<open>
  The \<open>trigger\<close> section of the configuration, as \<^verbatim>\<open>_load_config\<close> documents it: each
  of the three lists may be absent.
\<close>

datatype trigger_config =
  TriggerConfig (cfg_watch_directories: "string list option")
                (cfg_watch_file_patterns: "string list option")
                (cfg_ignore_patterns: "string list option")

text \<open>
  What the scan asks of the operating system and the library:
  \<^verbatim>\<open>os.path.exists\<close>; \<^verbatim>\<open>Path(directory).glob(pattern)\<close>, the paths as strings in the
  order they are yielded, or the exception it raises (\<^verbatim>\<open>ValueError\<close> on an empty
  pattern); \<^verbatim>\<open>file_path.match(ignore)\<close>, which raises likewise;
  \<^verbatim>\<open>datetime.fromtimestamp(os.path.getmtime(file_path))\<close> (\<open>None\<close> when the file cannot be
  read: \<^verbatim>\<open>getmtime\<close> raises \<^verbatim>\<open>OSError\<close>); and \<^verbatim>\<open>isoformat\<close>.
\<close>

datatype watch_env =
  WatchEnv (path_exists: "string \<Rightarrow> bool")
           (path_glob: "string \<Rightarrow> string \<Rightarrow> py_error + string list")
           (path_match: "string \<Rightarrow> string \<Rightarrow> py_error + bool")
           (getmtime: "string \<Rightarrow> datetime option")
           (isoformat: "datetime \<Rightarrow> string")

text \<open>An entry of \<^verbatim>\<open>modified_files\<close>: \<^verbatim>\<open>{"path": ..., "modified_time": ...}\<close>.\<close>

datatype watch_event = WatchEvent (event_path: string) (event_modified_time: string)

text \<open>The watcher object: its configuration and its cursor \<^verbatim>\<open>self.last_check_time\<close>.\<close>

datatype trigger = Trigger (self_config: "trigger_config option") (last_check_time: datetime)

text \<open>
  \<^verbatim>\<open>self.config.get("trigger", {}).get(key, default)\<close> for the three lists.
\<close>

definition watch_dirs_of :: "trigger_config option \<Rightarrow> string list" where
  "watch_dirs_of config =
     (case config of
        None \<Rightarrow> [''data/scenes'']
      | Some c \<Rightarrow> (case cfg_watch_directories c of None \<Rightarrow> [''data/scenes''] | Some ds \<Rightarrow> ds))"

definition patterns_of :: "trigger_config option \<Rightarrow> string list" where
  "patterns_of config =
     (case config of
        None \<Rightarrow> [''*.json'', ''*.xml'']
      | Some c \<Rightarrow> (case cfg_watch_file_patterns c of None \<Rightarrow> [''*.json'', ''*.xml''] | Some ps \<Rightarrow> ps))"

definition ignore_patterns_of :: "trigger_config option \<Rightarrow> string list" where
  "ignore_patterns_of config =
     (case config of
        None \<Rightarrow> []
      | Some c \<Rightarrow> (case cfg_ignore_patterns c of None \<Rightarrow> [] | Some ps \<Rightarrow> ps))"

text \<open>
  \<^verbatim>\<open>any(file_path.match(ignore) for ignore in ignore_patterns)\<close>: the patterns are tried in
  order, up to the first that matches or raises.
\<close>

fun any_match :: "watch_env \<Rightarrow> string \<Rightarrow> string list \<Rightarrow> py_error + bool" where
  "any_match env file_path [] = Inr False"
| "any_match env file_path (ignore # ignore_patterns) =
     (case path_match env file_path ignore of
        Inl e \<Rightarrow> Inl e
      | Inr True \<Rightarrow> Inr True
      | Inr False \<Rightarrow> any_match env file_path ignore_patterns)"

text \<open>
  The innermost loop of \<^verbatim>\<open>watch_directories\<close>, over the paths one pattern yields in one
  directory: an ignored path is skipped, and a path is appended to \<^verbatim>\<open>modified_files\<close>
  when its modification time is after the cursor.
\<close>

fun scan_files ::
  "watch_env \<Rightarrow> string list \<Rightarrow> datetime \<Rightarrow> string list \<Rightarrow> watch_event list \<Rightarrow> py_error + watch_event list" where
  "scan_files env ignore_patterns cursor [] modified_files = Inr modified_files"
| "scan_files env ignore_patterns cursor (file_path # file_paths) modified_files =
     (case any_match env file_path ignore_patterns of
        Inl e \<Rightarrow> Inl e
      | Inr True \<Rightarrow> scan_files env ignore_patterns cursor file_paths modified_files
      | Inr False \<Rightarrow>
          (case getmtime env file_path of
             None \<Rightarrow> Inl OSError
           | Some mod_time \<Rightarrow>
               if mod_time > cursor
               then scan_files env ignore_patterns cursor file_paths
                      (modified_files @ [WatchEvent file_path (isoformat env mod_time)])
               else scan_files env ignore_patterns cursor file_paths modified_files))"

fun scan_patterns ::
  "watch_env \<Rightarrow> string list \<Rightarrow> datetime \<Rightarrow> string \<Rightarrow> string list \<Rightarrow> watch_event list
     \<Rightarrow> py_error + watch_event list" where
  "scan_patterns env ignore_patterns cursor directory [] modified_files = Inr modified_files"
| "scan_patterns env ignore_patterns cursor directory (pattern # patterns) modified_files =
     (case path_glob env directory pattern of
        Inl e \<Rightarrow> Inl e
      | Inr file_paths \<Rightarrow>
          (case scan_files env ignore_patterns cursor file_paths modified_files of
             Inl e \<Rightarrow> Inl e
           | Inr modified_files' \<Rightarrow>
               scan_patterns env ignore_patterns cursor directory patterns modified_files'))"

fun scan_directories ::
  "watch_env \<Rightarrow> string list \<Rightarrow> string list \<Rightarrow> datetime \<Rightarrow> string list \<Rightarrow> watch_event list
     \<Rightarrow> py_error + watch_event list" where
  "scan_directories env patterns ignore_patterns cursor [] modified_files = Inr modified_files"
| "scan_directories env patterns ignore_patterns cursor (directory # watch_dirs) modified_files =
     (if \<not> path_exists env directory
      then scan_directories env patterns ignore_patterns cursor watch_dirs modified_files
      else (case scan_patterns env ignore_patterns cursor directory patterns modified_files of
              Inl e \<Rightarrow> Inl e
            | Inr modified_files' \<Rightarrow>
                scan_directories env patterns ignore_patterns cursor watch_dirs modified_files'))"

text \<open>
  \<^verbatim>\<open>SceneValidatorTrigger.watch_directories\<close>: one scan. \<open>now\<close> is what
  \<^verbatim>\<open>datetime.now()\<close> returns in the last statement; an exception of the scan leaves the
  cursor as it was.
\<close>

definition watch_directories ::
  "watch_env \<Rightarrow> datetime \<Rightarrow> trigger \<Rightarrow> py_error + (watch_event list \<times> trigger)" where
  "watch_directories env now self =
     (case scan_directories env (patterns_of (self_config self)) (ignore_patterns_of (self_config self))
             (last_check_time self) (watch_dirs_of (self_config self)) [] of
        Inl e \<Rightarrow> Inl e
      | Inr modified_files \<Rightarrow> Inr (modified_files, Trigger (self_config self) now))"

section \<open>Auxiliary definitions for the proofs\<close>

text \<open>The result dict while the loop runs: only \<open>valid\<close> and \<open>errors\<close> change.\<close>

definition scene_results_dict :: "json \<Rightarrow> string \<Rightarrow> string list \<Rightarrow> dict" where
  "scene_results_dict sid now errs =
     [(''scene_id'', sid),
      (''timestamp'', JStr now),
      (''valid'', JBool (errs = [])),
      (''errors'', JArr (map JStr errs)),
      (''warnings'', JArr []),
      (''suggestions'', JArr [])]"

text \<open>The messages the loop appends, or the exception that ends it.\<close>

fun missing_messages :: "(json \<Rightarrow> string) \<Rightarrow> dict \<Rightarrow> json list \<Rightarrow> py_error + string list" where
  "missing_messages repr scene_data [] = Inr []"
| "missing_messages repr scene_data (field # fields) =
     (case field_missing scene_data field of
        Inl e \<Rightarrow> Inl e
      | Inr b \<Rightarrow>
          (case missing_messages repr scene_data fields of
             Inl e \<Rightarrow> Inl e
           | Inr ms \<Rightarrow>
               Inr ((if b then [''Missing required metadata: '' @ py_str repr field] else []) @ ms)))"

text \<open>A required field is missing from a scene: absent, or bound to a falsy value.\<close>

definition absent_or_falsy :: "dict \<Rightarrow> string \<Rightarrow> bool" where
  "absent_or_falsy scene_data f =
     (f \<notin> fst ` set scene_data \<or> (\<exists>v. map_of scene_data f = Some v \<and> \<not> truthy v))"

text \<open>The project result while the loop of \<^verbatim>\<open>validate_project\<close> runs.\<close>

definition project_results_dict :: "json \<Rightarrow> string \<Rightarrow> nat \<Rightarrow> int \<Rightarrow> int \<Rightarrow> json list \<Rightarrow> dict" where
  "project_results_dict pid ts cnt v iv rs =
     [(''project_id'', pid),
      (''timestamp'', JStr ts),
      (''scene_count'', JInt (int cnt)),
      (''valid_scenes'', JInt v),
      (''invalid_scenes'', JInt iv),
      (''scene_results'', JArr rs),
      (''project_level_issues'', JArr [])]"

text \<open>What \<^verbatim>\<open>validate_scene\<close> returns under rules that name the fields \<open>req\<close>.\<close>

definition scene_outcome :: "string list \<Rightarrow> string \<Rightarrow> dict \<Rightarrow> dict" where
  "scene_outcome req now sd =
     scene_results_dict (dict_get sd ''scene_id'' (JStr ''unknown'')) now
       (map (\<lambda>f. ''Missing required metadata: '' @ f) (filter (absent_or_falsy sd) req))"

text \<open>No required field is missing from the scene.\<close>

definition scene_complete :: "string list \<Rightarrow> dict \<Rightarrow> bool" where
  "scene_complete req sd = (filter (absent_or_falsy sd) req = [])"

text \<open>
  Stand-ins for the interpreter's \<^verbatim>\<open>repr\<close>, \<^verbatim>\<open>json.loads\<close> and \<^verbatim>\<open>str(e)\<close> in
  concrete evaluations.
\<close>

definition sample_repr :: "json \<Rightarrow> string" where
  "sample_repr v = ''?''"

definition sample_loads :: "string \<Rightarrow> string + json" where
  "sample_loads s = Inr (JObj [(''is_consistent'', JBool True)])"

definition sample_exc_str :: "py_error \<Rightarrow> string" where
  "sample_exc_str e = ''error''"




section \<open>Auxiliary definitions for the Directory Watcher\<close>

text \<open>An event reports a file whose modification time is after the cursor.\<close>

definition after_cursor :: "watch_env \<Rightarrow> datetime \<Rightarrow> watch_event \<Rightarrow> bool" where
  "after_cursor env cursor ev =
     (\<exists>m. getmtime env (event_path ev) = Some m \<and> cursor < m
          \<and> event_modified_time ev = isoformat env m)"

text \<open>
  A sample environment: the directory \<open>data/scenes\<close> exists and holds one file,
  \<open>a.json\<close>, last modified at \<open>m\<close>; an empty pattern is refused.
\<close>

definition demo_env :: "datetime \<Rightarrow> watch_env" where
  "demo_env m =
     WatchEnv (\<lambda>directory. directory = ''data/scenes'')
              (\<lambda>directory pattern.
                 if pattern = [] then Inl ValueError
                 else if pattern = ''*.json'' then Inr [''data/scenes/a.json''] else Inr [])
              (\<lambda>file_path ignore. if ignore = [] then Inl ValueError else Inr False)
              (\<lambda>file_path. Some m)
              (\<lambda>t. ''t'')"

section \<open>Properties of the Scene Validator\<close>

lemma field_missing_JStr:
  "field_missing scene_data (JStr f) = Inr (absent_or_falsy scene_data f)"
  by (cases "map_of scene_data f")
     (simp_all add: absent_or_falsy_def map_of_eq_None_iff [symmetric])

lemma scene_results_dict_step:
  "dict_append (dict_set (scene_results_dict sid now errs) ''valid'' (JBool False)) ''errors'' (JStr m)
     = Inr (scene_results_dict sid now (errs @ [m]))"
  by (simp add: scene_results_dict_def dict_append_def)

lemma check_required_run:
  "check_required repr scene_data fields (scene_results_dict sid now errs) =
     (case missing_messages repr scene_data fields of
        Inl e \<Rightarrow> Inl e
      | Inr ms \<Rightarrow> Inr (scene_results_dict sid now (errs @ ms)))"
proof (induction fields arbitrary: errs)
  case Nil
  show ?case by simp
next
  case (Cons field fields)
  show ?case
  proof (cases "field_missing scene_data field")
    case (Inl e)
    then show ?thesis by simp
  next
    case (Inr b)
    show ?thesis
    proof (cases b)
      case True
      with Inr show ?thesis
        using Cons.IH [of "errs @ [''Missing required metadata: '' @ py_str repr field]"]
        by (simp add: scene_results_dict_step split: sum.splits)
    next
      case False
      with Inr show ?thesis
        using Cons.IH [of errs] by (simp split: sum.splits)
    qed
  qed
qed

lemma validate_scene_run:
  "validate_scene repr rules now (JObj sd) =
     (case required_fields rules of
        Inl e \<Rightarrow> Inl e
      | Inr fields \<Rightarrow>
          (case missing_messages repr sd fields of
             Inl e \<Rightarrow> Inl e
           | Inr ms \<Rightarrow> Inr (scene_results_dict (dict_get sd ''scene_id'' (JStr ''unknown'')) now ms)))"
proof -
  have "[(''scene_id'', dict_get sd ''scene_id'' (JStr ''unknown'')),
         (''timestamp'', JStr now), (''valid'', JBool True), (''errors'', JArr []),
         (''warnings'', JArr []), (''suggestions'', JArr [])]
        = scene_results_dict (dict_get sd ''scene_id'' (JStr ''unknown'')) now []"
    by (simp add: scene_results_dict_def)
  then show ?thesis
    by (simp add: validate_scene_def check_required_run split: sum.splits)
qed

lemma missing_messages_strings:
  "missing_messages repr scene_data (map JStr req) =
     Inr (map (\<lambda>f. ''Missing required metadata: '' @ f) (filter (absent_or_falsy scene_data) req))"
  by (induction req) (simp_all add: field_missing_JStr py_str_def del: field_missing.simps)

lemma validate_scene_object:
  assumes "required_fields rules = Inr (map JStr req)"
  shows "validate_scene repr rules now (JObj sd) =
           Inr (scene_results_dict (dict_get sd ''scene_id'' (JStr ''unknown'')) now
                  (map (\<lambda>f. ''Missing required metadata: '' @ f) (filter (absent_or_falsy sd) req)))"
  using assms by (simp add: validate_scene_run missing_messages_strings)

lemma truthy_falsy_values:
  "(\<not> truthy v) = (v \<in> {JNull, JBool False, JInt 0, JFloat 0, JStr [], JArr [], JObj []})"
  by (cases v) auto

lemma absent_or_falsy_unfold:
  "absent_or_falsy scene_data =
     (\<lambda>f. f \<notin> fst ` set scene_data \<or> (\<exists>v. map_of scene_data f = Some v \<and> \<not> truthy v))"
  by (rule ext) (simp only: absent_or_falsy_def)

lemma required_fields_of_rules:
  assumes "map_of rules ''scene_structure'' = Some (JObj scene_structure)"
    and "map_of scene_structure ''required_metadata'' = Some (JArr (map JStr req))"
  shows "required_fields (JObj rules) = Inr (map JStr req)"
  using assms by (simp add: required_fields_def)

text \<open>
  C1. Let the rules be a mapping whose \<open>scene_structure\<close> entry is a mapping whose
  \<open>required_metadata\<close> entry is the list of field names \<open>req\<close>. Then \<open>validate_scene\<close>
  on a scene object returns a result whose \<open>errors\<close> are exactly the messages
  "Missing required metadata: f" for the fields f of \<open>req\<close> that are absent from the scene
  or bound to a falsy value (null, false, zero, empty string, empty list, empty object), one
  per field and in the order of \<open>req\<close>, and whose \<open>valid\<close> flag is true exactly when
  \<open>errors\<close> is empty.
\<close>

theorem validate_scene_missing_fields:
  assumes "map_of rules ''scene_structure'' = Some (JObj scene_structure)"
    and "map_of scene_structure ''required_metadata'' = Some (JArr (map JStr req))"
  shows "\<exists>errs.
           validate_scene repr (JObj rules) now (JObj scene_data) =
             Inr [(''scene_id'', dict_get scene_data ''scene_id'' (JStr ''unknown'')),
                  (''timestamp'', JStr now),
                  (''valid'', JBool (errs = [])),
                  (''errors'', JArr (map JStr errs)),
                  (''warnings'', JArr []),
                  (''suggestions'', JArr [])]
           \<and> errs = map (\<lambda>f. ''Missing required metadata: '' @ f)
                        (filter (\<lambda>f. f \<notin> fst ` set scene_data
                                       \<or> (\<exists>v. map_of scene_data f = Some v \<and> \<not> truthy v)) req)
           \<and> (\<forall>v. (\<not> truthy v) = (v \<in> {JNull, JBool False, JInt 0, JFloat 0, JStr [], JArr [], JObj []}))"
proof -
  let ?errs = "map (\<lambda>f. ''Missing required metadata: '' @ f)
                 (filter (\<lambda>f. f \<notin> fst ` set scene_data
                                \<or> (\<exists>v. map_of scene_data f = Some v \<and> \<not> truthy v)) req)"
  have fields: "required_fields (JObj rules) = Inr (map JStr req)"
    by (rule required_fields_of_rules [OF assms])
  have run: "validate_scene repr (JObj rules) now (JObj scene_data) =
      Inr (scene_results_dict (dict_get scene_data ''scene_id'' (JStr ''unknown'')) now ?errs)"
    using validate_scene_object [OF fields, of repr now scene_data]
    by (simp only: absent_or_falsy_unfold)
  have falsy: "\<forall>v. (\<not> truthy v) = (v \<in> {JNull, JBool False, JInt 0, JFloat 0, JStr [], JArr [], JObj []})"
    using truthy_falsy_values by blast
  show ?thesis
    apply (rule exI [of _ ?errs])
    apply (intro conjI)
      apply (simp only: run scene_results_dict_def)
     apply (rule refl)
    apply (rule falsy)
    done
qed

text \<open>
  Two evaluations: the default rules on the scene of the specification's scenario, and
  rules that require \<open>title\<close> and \<open>location\<close> on a scene whose location is the empty
  string.
\<close>

theorem validate_scene_missing_fields_witness:
  "validate_scene sample_repr default_rules ''t0''
       (JObj [(''scene_id'', JStr ''S1''), (''timestamp'', JStr ''t'')]) =
     Inr [(''scene_id'', JStr ''S1''),
          (''timestamp'', JStr ''t0''),
          (''valid'', JBool False),
          (''errors'', JArr [JStr ''Missing required metadata: location'']),
          (''warnings'', JArr []),
          (''suggestions'', JArr [])]
   \<and> validate_scene sample_repr
       (JObj [(''scene_structure'',
               JObj [(''required_metadata'', JArr [JStr ''title'', JStr ''location''])])])
       ''t1''
       (JObj [(''title'', JStr ''Opening''), (''location'', JStr [])]) =
     Inr [(''scene_id'', JStr ''unknown''),
          (''timestamp'', JStr ''t1''),
          (''valid'', JBool False),
          (''errors'', JArr [JStr ''Missing required metadata: location'']),
          (''warnings'', JArr []),
          (''suggestions'', JArr [])]
   \<and> validate_scene sample_repr
       (JObj [(''scene_structure'',
               JObj [(''required_metadata'', JArr [JStr ''title'', JStr ''location''])])])
       ''t2''
       (JObj [(''title'', JStr ''Opening''), (''location'', JStr ''Pier'')]) =
     Inr [(''scene_id'', JStr ''unknown''),
          (''timestamp'', JStr ''t2''),
          (''valid'', JBool True),
          (''errors'', JArr []),
          (''warnings'', JArr []),
          (''suggestions'', JArr [])]"
proof (intro conjI)
  show "validate_scene sample_repr default_rules ''t0''
       (JObj [(''scene_id'', JStr ''S1''), (''timestamp'', JStr ''t'')]) =
     Inr [(''scene_id'', JStr ''S1''),
          (''timestamp'', JStr ''t0''),
          (''valid'', JBool False),
          (''errors'', JArr [JStr ''Missing required metadata: location'']),
          (''warnings'', JArr []),
          (''suggestions'', JArr [])]"
    unfolding default_rules_def
    using validate_scene_missing_fields
      [of "[(''scene_structure'',
              JObj [(''required_metadata'', JArr [JStr ''scene_id'', JStr ''timestamp'', JStr ''location'']),
                    (''optional_metadata'', JArr [JStr ''weather'', JStr ''time_of_day'', JStr ''camera_setup''])]),
            (''continuity'',
              JObj [(''check_character_presence'', JBool True),
                    (''check_props'', JBool True),
                    (''check_lighting'', JBool True),
                    (''check_environment'', JBool True)])]"
          "[(''required_metadata'', JArr [JStr ''scene_id'', JStr ''timestamp'', JStr ''location'']),
            (''optional_metadata'', JArr [JStr ''weather'', JStr ''time_of_day'', JStr ''camera_setup''])]"
          "[''scene_id'', ''timestamp'', ''location'']"
          sample_repr "''t0''" "[(''scene_id'', JStr ''S1''), (''timestamp'', JStr ''t'')]"]
    by (simp add: dict_get_def)
  show "validate_scene sample_repr
       (JObj [(''scene_structure'',
               JObj [(''required_metadata'', JArr [JStr ''title'', JStr ''location''])])])
       ''t1''
       (JObj [(''title'', JStr ''Opening''), (''location'', JStr [])]) =
     Inr [(''scene_id'', JStr ''unknown''),
          (''timestamp'', JStr ''t1''),
          (''valid'', JBool False),
          (''errors'', JArr [JStr ''Missing required metadata: location'']),
          (''warnings'', JArr []),
          (''suggestions'', JArr [])]"
    using validate_scene_missing_fields
      [of "[(''scene_structure'',
              JObj [(''required_metadata'', JArr [JStr ''title'', JStr ''location''])])]"
          "[(''required_metadata'', JArr [JStr ''title'', JStr ''location''])]"
          "[''title'', ''location'']"
          sample_repr "''t1''" "[(''title'', JStr ''Opening''), (''location'', JStr [])]"]
    by (simp add: dict_get_def)
  show "validate_scene sample_repr
       (JObj [(''scene_structure'',
               JObj [(''required_metadata'', JArr [JStr ''title'', JStr ''location''])])])
       ''t2''
       (JObj [(''title'', JStr ''Opening''), (''location'', JStr ''Pier'')]) =
     Inr [(''scene_id'', JStr ''unknown''),
          (''timestamp'', JStr ''t2''),
          (''valid'', JBool True),
          (''errors'', JArr []),
          (''warnings'', JArr []),
          (''suggestions'', JArr [])]"
    using validate_scene_missing_fields
      [of "[(''scene_structure'',
              JObj [(''required_metadata'', JArr [JStr ''title'', JStr ''location''])])]"
          "[(''required_metadata'', JArr [JStr ''title'', JStr ''location''])]"
          "[''title'', ''location'']"
          sample_repr "''t2''" "[(''title'', JStr ''Opening''), (''location'', JStr ''Pier'')]"]
    by (simp add: dict_get_def)
qed

lemma project_results_dict_append:
  "dict_append (project_results_dict pid ts cnt v iv rs) ''scene_results'' x =
     Inr (project_results_dict pid ts cnt v iv (rs @ [x]))"
  by (simp add: project_results_dict_def dict_append_def)

lemma project_results_dict_incr:
  "dict_incr (project_results_dict pid ts cnt v iv rs) ''valid_scenes'' =
     Inr (project_results_dict pid ts cnt (v + 1) iv rs)"
  "dict_incr (project_results_dict pid ts cnt v iv rs) ''invalid_scenes'' =
     Inr (project_results_dict pid ts cnt v (iv + 1) rs)"
  by (simp_all add: project_results_dict_def dict_incr_def)

lemma scene_outcome_valid:
  "py_getitem (JObj (scene_outcome req now sd)) ''valid'' = Inr (JBool (scene_complete req sd))"
  by (simp add: scene_outcome_def scene_results_dict_def scene_complete_def)

lemma validate_scene_outcome:
  "required_fields rules = Inr (map JStr req) \<Longrightarrow>
     validate_scene repr rules now (JObj sd) = Inr (scene_outcome req now sd)"
  by (simp add: validate_scene_object scene_outcome_def)

lemma validate_scenes_run:
  assumes "required_fields rules = Inr (map JStr req)"
  shows "validate_scenes repr rules clk n (map JObj sds) (project_results_dict pid ts cnt v iv rs) =
     Inr (project_results_dict pid ts cnt
            (v + int (length (filter (scene_complete req) sds)))
            (iv + int (length (filter (\<lambda>sd. \<not> scene_complete req sd) sds)))
            (rs @ map (\<lambda>(i, sd). JObj (scene_outcome req (clk i) sd)) (enumerate n sds)))"
proof (induction sds arbitrary: n v iv rs)
  case Nil
  show ?case by simp
next
  case (Cons sd sds)
  show ?case
  proof (cases "scene_complete req sd")
    case True
    then show ?thesis
      using Cons.IH [of "Suc n" "v + 1" iv "rs @ [JObj (scene_outcome req (clk n) sd)]"]
      by (simp add: validate_scene_outcome [OF assms] project_results_dict_append
            scene_outcome_valid project_results_dict_incr add.assoc del: py_getitem.simps)
  next
    case False
    then show ?thesis
      using Cons.IH [of "Suc n" v "iv + 1" "rs @ [JObj (scene_outcome req (clk n) sd)]"]
      by (simp add: validate_scene_outcome [OF assms] project_results_dict_append
            scene_outcome_valid project_results_dict_incr add.assoc del: py_getitem.simps)
  qed
qed

lemma validate_project_run:
  assumes "required_fields rules = Inr (map JStr req)"
  shows "validate_project repr rules clk (map JObj sds) =
     Inr (project_results_dict
            (case sds of [] \<Rightarrow> JStr ''unknown'' | d # _ \<Rightarrow> dict_get d ''project_id'' (JStr ''unknown''))
            (clk 0) (length sds)
            (int (length (filter (scene_complete req) sds)))
            (int (length (filter (\<lambda>sd. \<not> scene_complete req sd) sds)))
            (map (\<lambda>(i, sd). JObj (scene_outcome req (clk i) sd)) (enumerate 1 sds)))"
proof -
  have start: "[(''project_id'', pid), (''timestamp'', JStr (clk 0)),
          (''scene_count'', JInt (int (length (map JObj sds)))),
          (''valid_scenes'', JInt 0), (''invalid_scenes'', JInt 0),
          (''scene_results'', JArr []), (''project_level_issues'', JArr [])]
        = project_results_dict pid (clk 0) (length sds) 0 0 []" for pid
    by (simp add: project_results_dict_def)
  have pid: "(case map JObj sds of
                [] \<Rightarrow> Inr (JStr ''unknown'')
              | JObj d # _ \<Rightarrow> Inr (dict_get d ''project_id'' (JStr ''unknown''))
              | _ # _ \<Rightarrow> Inl AttributeError)
             = Inr (case sds of [] \<Rightarrow> JStr ''unknown''
                    | d # _ \<Rightarrow> dict_get d ''project_id'' (JStr ''unknown''))"
    by (cases sds) simp_all
  show ?thesis
    unfolding validate_project_def pid start
    by (simp only: sum.case validate_scenes_run [OF assms] add_0 append_Nil One_nat_def)
qed

lemma validate_project_empty:
  "validate_project repr rules clk [] =
     Inr [(''project_id'', JStr ''unknown''), (''timestamp'', JStr (clk 0)),
          (''scene_count'', JInt 0), (''valid_scenes'', JInt 0), (''invalid_scenes'', JInt 0),
          (''scene_results'', JArr []), (''project_level_issues'', JArr [])]"
  by (simp add: validate_project_def)

text \<open>
  C2. For every list of scene objects, under rules that name the required fields,
  \<open>validate_project\<close> returns a result with \<open>scene_count\<close> the length of the list,
  \<open>scene_results\<close> of the same length whose i-th entry is what \<open>validate_scene\<close>
  returns for the i-th scene (called in input order, at the clock reading of that call),
  \<open>valid_scenes\<close> the number of entries whose \<open>valid\<close> flag is true, and
  \<open>valid_scenes + invalid_scenes = scene_count\<close>. For the empty list the counts are 0,
  \<open>scene_results\<close> is empty and \<open>project_id\<close> is "unknown".
\<close>

theorem validate_project_counts:
  "(required_fields rules = Inr (map JStr req) \<longrightarrow>
      (\<exists>pid v iv rs.
         validate_project repr rules clk (map JObj scenes) =
           Inr [(''project_id'', pid),
                (''timestamp'', JStr (clk 0)),
                (''scene_count'', JInt (int (length scenes))),
                (''valid_scenes'', JInt (int v)),
                (''invalid_scenes'', JInt (int iv)),
                (''scene_results'', JArr rs),
                (''project_level_issues'', JArr [])]
         \<and> length rs = length scenes
         \<and> (\<forall>i < length scenes.
                \<exists>r. validate_scene repr rules (clk (Suc i)) (JObj (scenes ! i)) = Inr r
                    \<and> rs ! i = JObj r)
         \<and> v = length (filter (\<lambda>r. py_getitem r ''valid'' = Inr (JBool True)) rs)
         \<and> v + iv = length scenes))
   \<and> validate_project repr rules clk [] =
       Inr [(''project_id'', JStr ''unknown''),
            (''timestamp'', JStr (clk 0)),
            (''scene_count'', JInt 0),
            (''valid_scenes'', JInt 0),
            (''invalid_scenes'', JInt 0),
            (''scene_results'', JArr []),
            (''project_level_issues'', JArr [])]"
proof (intro conjI impI)
  assume rules: "required_fields rules = Inr (map JStr req)"
  let ?pid = "case scenes of [] \<Rightarrow> JStr ''unknown'' | d # _ \<Rightarrow> dict_get d ''project_id'' (JStr ''unknown'')"
  let ?v = "length (filter (scene_complete req) scenes)"
  let ?iv = "length (filter (\<lambda>sd. \<not> scene_complete req sd) scenes)"
  let ?rs = "map (\<lambda>(i, sd). JObj (scene_outcome req (clk i) sd)) (enumerate 1 scenes)"
  have run: "validate_project repr rules clk (map JObj scenes) =
      Inr (project_results_dict ?pid (clk 0) (length scenes) (int ?v) (int ?iv) ?rs)"
    by (rule validate_project_run [OF rules])
  have len: "length ?rs = length scenes" by simp
  have nth: "\<exists>r. validate_scene repr rules (clk (Suc i)) (JObj (scenes ! i)) = Inr r \<and> ?rs ! i = JObj r"
    if "i < length scenes" for i
    using that by (simp add: validate_scene_outcome [OF rules] nth_enumerate_eq)
  have "filter (\<lambda>r. py_getitem r ''valid'' = Inr (JBool True))
          (map (\<lambda>(i, sd). JObj (scene_outcome req (clk i) sd)) (enumerate n scenes))
        = map (\<lambda>(i, sd). JObj (scene_outcome req (clk i) sd))
            (filter (\<lambda>(i, sd). scene_complete req sd) (enumerate n scenes))" for n
    by (induction scenes arbitrary: n) (simp_all add: scene_outcome_valid del: py_getitem.simps)
  moreover have "length (filter (\<lambda>(i, sd). scene_complete req sd) (enumerate n scenes))
      = length (filter (scene_complete req) scenes)" for n
    by (induction scenes arbitrary: n) simp_all
  ultimately have cnt: "?v = length (filter (\<lambda>r. py_getitem r ''valid'' = Inr (JBool True)) ?rs)"
    by simp
  have total: "?v + ?iv = length scenes"
    by (rule sum_length_filter_compl)
  show "\<exists>pid v iv rs.
         validate_project repr rules clk (map JObj scenes) =
           Inr [(''project_id'', pid),
                (''timestamp'', JStr (clk 0)),
                (''scene_count'', JInt (int (length scenes))),
                (''valid_scenes'', JInt (int v)),
                (''invalid_scenes'', JInt (int iv)),
                (''scene_results'', JArr rs),
                (''project_level_issues'', JArr [])]
         \<and> length rs = length scenes
         \<and> (\<forall>i < length scenes.
                \<exists>r. validate_scene repr rules (clk (Suc i)) (JObj (scenes ! i)) = Inr r
                    \<and> rs ! i = JObj r)
         \<and> v = length (filter (\<lambda>r. py_getitem r ''valid'' = Inr (JBool True)) rs)
         \<and> v + iv = length scenes"
    apply (rule exI [of _ ?pid], rule exI [of _ ?v], rule exI [of _ ?iv], rule exI [of _ ?rs])
    apply (intro conjI allI impI)
        apply (simp only: run project_results_dict_def)
       apply (rule len)
      apply (erule nth)
     apply (rule cnt)
    apply (rule total)
    done
next
  show "validate_project repr rules clk [] =
       Inr [(''project_id'', JStr ''unknown''),
            (''timestamp'', JStr (clk 0)),
            (''scene_count'', JInt 0),
            (''valid_scenes'', JInt 0),
            (''invalid_scenes'', JInt 0),
            (''scene_results'', JArr []),
            (''project_level_issues'', JArr [])]"
    by (rule validate_project_empty)
qed

theorem validate_project_counts_witness:
  "required_fields default_rules = Inr (map JStr [''scene_id'', ''timestamp'', ''location''])
   \<and> (\<exists>pid v iv rs.
         validate_project (\<lambda>v. []) default_rules (\<lambda>k. ''t'')
            (map JObj [[(''scene_id'', JStr ''S1''), (''timestamp'', JStr ''t''), (''location'', JStr ''x'')],
                       [(''scene_id'', JStr ''S2'')]]) =
           Inr [(''project_id'', pid),
                (''timestamp'', JStr ''t''),
                (''scene_count'', JInt 2),
                (''valid_scenes'', JInt (int v)),
                (''invalid_scenes'', JInt (int iv)),
                (''scene_results'', JArr rs),
                (''project_level_issues'', JArr [])]
         \<and> length rs = 2 \<and> v + iv = 2)"
proof -
  let ?scenes = "[[(''scene_id'', JStr ''S1''), (''timestamp'', JStr ''t''), (''location'', JStr ''x'')],
                  [(''scene_id'', JStr ''S2'')]]"
  have rules: "required_fields default_rules = Inr (map JStr [''scene_id'', ''timestamp'', ''location''])"
    by (simp add: default_rules_def required_fields_def)
  have n: "length ?scenes = 2" by simp
  from validate_project_counts
      [of default_rules "[''scene_id'', ''timestamp'', ''location'']" "\<lambda>v. []" "\<lambda>k. ''t''" ?scenes]
    rules
  obtain pid v iv rs where
    run: "validate_project (\<lambda>v. []) default_rules (\<lambda>k. ''t'') (map JObj ?scenes) =
           Inr [(''project_id'', pid),
                (''timestamp'', JStr ''t''),
                (''scene_count'', JInt (int (length ?scenes))),
                (''valid_scenes'', JInt (int v)),
                (''invalid_scenes'', JInt (int iv)),
                (''scene_results'', JArr rs),
                (''project_level_issues'', JArr [])]"
    and len: "length rs = length ?scenes" and tot: "v + iv = length ?scenes"
    by blast
  have cnt: "JInt (int (length ?scenes)) = JInt 2" by simp
  show ?thesis
    apply (rule conjI [OF rules])
    apply (rule exI [of _ pid], rule exI [of _ v], rule exI [of _ iv], rule exI [of _ rs])
    apply (intro conjI)
      apply (simp only: run cnt)
     apply (simp only: len n)
    apply (simp only: tot n)
    done
qed

lemma validate_scene_not_object:
  "(\<forall>d. scene_data \<noteq> JObj d) \<Longrightarrow> validate_scene repr rules now scene_data = Inl AttributeError"
  by (cases scene_data) (simp_all add: validate_scene_def)

text \<open>
  C3, as the code has it. A scene that is not an object (null, a boolean, a number, a
  string, an array) makes \<open>validate_scene\<close> raise AttributeError at its first statement,
  and no result is produced; a scene object, under rules that name the required fields,
  never raises.
\<close>

theorem validate_scene_raises_on_non_object:
  "((\<forall>d. scene_data \<noteq> JObj d) \<longrightarrow>
       validate_scene repr rules now scene_data = Inl AttributeError)
   \<and> (required_fields rules = Inr (map JStr req) \<longrightarrow>
       (\<exists>r. validate_scene repr rules now (JObj sd) = Inr r))"
  by (simp add: validate_scene_not_object validate_scene_object)

theorem validate_scene_raises_on_non_object_witness:
  "(\<forall>d. JStr ''scene'' \<noteq> JObj d)
   \<and> validate_scene (\<lambda>v. []) default_rules ''t0'' (JStr ''scene'') = Inl AttributeError
   \<and> required_fields default_rules = Inr (map JStr [''scene_id'', ''timestamp'', ''location''])
   \<and> (\<exists>r. validate_scene (\<lambda>v. []) default_rules ''t0'' (JObj [(''scene_id'', JStr ''S1'')]) = Inr r)"
proof -
  have rules: "required_fields default_rules = Inr (map JStr [''scene_id'', ''timestamp'', ''location''])"
    by (simp add: default_rules_def required_fields_def)
  show ?thesis
    using rules validate_scene_raises_on_non_object
      [of "JStr ''scene''" "\<lambda>v. []" default_rules "''t0''"
          "[''scene_id'', ''timestamp'', ''location'']" "[(''scene_id'', JStr ''S1'')]"]
    by simp
qed

text \<open>
  C3 as stated fails: on an array, a string and a number \<open>validate_scene\<close> raises
  instead of returning an all-errors result.
\<close>

theorem validate_scene_non_object_counterexample:
  "validate_scene sample_repr default_rules ''t0'' (JArr []) = Inl AttributeError
   \<and> validate_scene sample_repr default_rules ''t0'' (JStr ''scene'') = Inl AttributeError
   \<and> validate_scene sample_repr default_rules ''t0'' (JInt 7) = Inl AttributeError"
  by (simp add: validate_scene_def)

lemma scene_results_dict_timestamp:
  "dict_set (scene_results_dict sid now1 errs) ''timestamp'' (JStr now2) = scene_results_dict sid now2 errs"
  by (simp add: scene_results_dict_def)

lemma validate_scene_clock:
  "validate_scene repr rules now2 scene_data =
     (case validate_scene repr rules now1 scene_data of
        Inl e \<Rightarrow> Inl e
      | Inr r \<Rightarrow> Inr (dict_set r ''timestamp'' (JStr now2)))"
proof (cases "\<exists>sd. scene_data = JObj sd")
  case True
  then obtain sd where "scene_data = JObj sd" by blast
  then show ?thesis
    by (simp add: validate_scene_run scene_results_dict_timestamp split: sum.splits)
next
  case False
  then show ?thesis
    by (simp add: validate_scene_not_object)
qed

lemma validate_scene_timestamp:
  "validate_scene repr rules now scene_data = Inr r \<Longrightarrow> map_of r ''timestamp'' = Some (JStr now)"
proof (cases "\<exists>sd. scene_data = JObj sd")
  case True
  assume run: "validate_scene repr rules now scene_data = Inr r"
  from True obtain sd where "scene_data = JObj sd" by blast
  with run show ?thesis
    by (auto simp: validate_scene_run scene_results_dict_def split: sum.splits)
next
  case False
  assume "validate_scene repr rules now scene_data = Inr r"
  with False show ?thesis
    by (simp add: validate_scene_not_object)
qed

text \<open>
  C4, as the code has it. \<open>validate_scene\<close> has no effect but logging, and its result is a
  function of the scene, the rules and the clock reading taken during the call: the
  \<open>timestamp\<close> field is that reading, and two calls on the same scene and rules raise
  the same exception or return results that differ in the \<open>timestamp\<close> field at most.
\<close>

theorem validate_scene_deterministic_up_to_timestamp:
  "validate_scene repr rules now2 scene_data =
     (case validate_scene repr rules now1 scene_data of
        Inl e \<Rightarrow> Inl e
      | Inr r \<Rightarrow> Inr (dict_set r ''timestamp'' (JStr now2)))
   \<and> (\<forall>r. validate_scene repr rules now1 scene_data = Inr r \<longrightarrow>
          map_of r ''timestamp'' = Some (JStr now1))"
  using validate_scene_clock [of repr rules now2 scene_data now1] validate_scene_timestamp
  by blast

theorem validate_scene_deterministic_up_to_timestamp_witness:
  "validate_scene (\<lambda>v. []) default_rules ''2024-01-01T00:00:01'' (JObj [(''scene_id'', JStr ''S1'')]) =
     Inr (dict_set
            [(''scene_id'', JStr ''S1''),
             (''timestamp'', JStr ''2024-01-01T00:00:00''),
             (''valid'', JBool False),
             (''errors'', JArr [JStr ''Missing required metadata: timestamp'',
                                JStr ''Missing required metadata: location'']),
             (''warnings'', JArr []),
             (''suggestions'', JArr [])]
            ''timestamp'' (JStr ''2024-01-01T00:00:01''))"
proof -
  have run: "validate_scene (\<lambda>v. []) default_rules ''2024-01-01T00:00:00'' (JObj [(''scene_id'', JStr ''S1'')]) =
     Inr [(''scene_id'', JStr ''S1''),
          (''timestamp'', JStr ''2024-01-01T00:00:00''),
          (''valid'', JBool False),
          (''errors'', JArr [JStr ''Missing required metadata: timestamp'',
                             JStr ''Missing required metadata: location'']),
          (''warnings'', JArr []),
          (''suggestions'', JArr [])]"
    by (simp add: validate_scene_def default_rules_def required_fields_def dict_get_def
          dict_append_def py_str_def)
  show ?thesis
    using validate_scene_deterministic_up_to_timestamp
      [of "\<lambda>v. []" default_rules "''2024-01-01T00:00:01''" "JObj [(''scene_id'', JStr ''S1'')]"
          "''2024-01-01T00:00:00''"]
    by (simp only: run sum.case)
qed

text \<open>
  C4 as stated fails: two calls on the same scene and rules, made at different clock
  readings, return different results.
\<close>

theorem validate_scene_timestamp_counterexample:
  "validate_scene sample_repr default_rules ''2024-01-01T00:00:00'' (JObj [(''scene_id'', JStr ''S1'')])
     \<noteq> validate_scene sample_repr default_rules ''2024-01-01T00:00:01'' (JObj [(''scene_id'', JStr ''S1'')])"
  by (simp add: validate_scene_def default_rules_def required_fields_def dict_get_def
        dict_append_def py_str_def)

section \<open>Properties of the Report Renderer\<close>

lemma format_scan_text:
  "\<forall>c \<in> set xs. c \<noteq> CHR ''{'' \<and> c \<noteq> CHR ''}'' \<Longrightarrow>
     format_scan kwargs Text (xs @ ys) =
       (case format_scan kwargs Text ys of Inl e \<Rightarrow> Inl e | Inr rest \<Rightarrow> Inr (xs @ rest))"
  by (induction xs) (auto split: sum.splits)

text \<open>
  The first brace of the template opens the style rule of \<open>body\<close>, which
  \<^verbatim>\<open>str.format\<close> reads as a field named " font-family".
\<close>

lemma format_scan_unknown_field:
  assumes "map_of kwargs '' font-family'' = None"
  shows "format_scan kwargs Text
           (''                body { font-family: Arial, sans-serif; margin: 20px; }\<newline>'' @ rest)
         = Inl (KeyError '' font-family'')"
  using assms by (simp add: field_name_step_def render_field_def arg_name_def is_digit_def)

lemma html_template_format:
  assumes "map_of kwargs '' font-family'' = None"
  shows "py_format html_template kwargs = Inl (KeyError '' font-family'')"
  unfolding py_format_def html_template_def
  apply (subst format_scan_text, simp)
  apply (subst format_scan_text, simp)
  apply (subst format_scan_text, simp)
  apply (subst format_scan_text, simp)
  apply (subst format_scan_text, simp)
  apply (subst format_scan_text, simp)
  apply (simp only: format_scan_unknown_field [OF assms] sum.case)
  done

lemma generate_html_report_raises:
  "generate_html_report repr validation_results =
     (case py_iter (dict_get validation_results ''scene_results'' (JArr [])) of
        Inl e \<Rightarrow> Inl e
      | Inr scenes \<Rightarrow>
          (case scenes_html repr scenes [] of
             Inl e \<Rightarrow> Inl e
           | Inr scene_results_html \<Rightarrow>
               (case py_iter (dict_get validation_results ''project_level_issues'' (JArr [])) of
                  Inl e \<Rightarrow> Inl e
                | Inr issues \<Rightarrow> Inl (KeyError '' font-family''))))"
proof -
  have fmt: "py_format html_template
               [(''project_id'', a), (''timestamp'', b), (''scene_count'', c), (''valid_scenes'', d),
                (''invalid_scenes'', e), (''scene_results'', f), (''project_issues'', g)]
             = Inl (KeyError '' font-family'')" for a b c d e f g
    by (rule html_template_format) simp
  show ?thesis
    unfolding generate_html_report_def fmt by (rule refl)
qed

lemma generate_html_report_no_report:
  "generate_html_report repr validation_results \<noteq> Inr html"
  by (auto simp: generate_html_report_raises split: sum.splits)

text \<open>
  C10, evaluated on the code. \<open>_generate_html_report\<close> returns no report for any
  validation result: the style rules of the template are single braces, so
  \<^verbatim>\<open>html_template.format\<close> raises KeyError for the field " font-family". For the result of
  a single scene (no \<open>scene_results\<close> key) both loops are empty and that KeyError is the
  outcome, also of \<open>generate_report\<close> under the default report format "html".
\<close>

theorem html_report_raises_key_error:
  "generate_html_report repr validation_results \<noteq> Inr html
   \<and> generate_html_report repr
         [(''scene_id'', JStr ''S1''), (''timestamp'', JStr ''t0''), (''valid'', JBool False),
          (''errors'', JArr [JStr ''Missing required metadata: location'']),
          (''warnings'', JArr []), (''suggestions'', JArr [])]
       = Inl (KeyError '' font-family'')
   \<and> generate_report dumps repr [] 
         [(''scene_id'', JStr ''S1''), (''timestamp'', JStr ''t0''), (''valid'', JBool False),
          (''errors'', JArr [JStr ''Missing required metadata: location'']),
          (''warnings'', JArr []), (''suggestions'', JArr [])]
         output_path fs
       = Inl (KeyError '' font-family'')"
proof (intro conjI)
  show "generate_html_report repr validation_results \<noteq> Inr html"
    by (rule generate_html_report_no_report)
  show single: "generate_html_report repr
         [(''scene_id'', JStr ''S1''), (''timestamp'', JStr ''t0''), (''valid'', JBool False),
          (''errors'', JArr [JStr ''Missing required metadata: location'']),
          (''warnings'', JArr []), (''suggestions'', JArr [])]
       = Inl (KeyError '' font-family'')"
    by (simp add: generate_html_report_raises dict_get_def)
  have fmt: "py_lower ''html'' = ''html''"
    by (simp add: py_lower_def lower_char_def)
  show "generate_report dumps repr []
         [(''scene_id'', JStr ''S1''), (''timestamp'', JStr ''t0''), (''valid'', JBool False),
          (''errors'', JArr [JStr ''Missing required metadata: location'']),
          (''warnings'', JArr []), (''suggestions'', JArr [])]
         output_path fs
       = Inl (KeyError '' font-family'')"
    unfolding generate_report_def
    by (simp add: single dict_get_def fmt)
qed

lemma generate_report_not_html:
  assumes "map_of config ''report_format'' = Some (JStr fmt)"
    and "py_lower fmt \<noteq> ''html''"
  shows "generate_report dumps repr config validation_results output_path fs =
           (case output_path of
              None \<Rightarrow> Inr (dumps (JObj validation_results), fs)
            | Some path \<Rightarrow>
                if path = [] then Inr (dumps (JObj validation_results), fs)
                else (case write_file fs path (dumps (JObj validation_results)) of
                        Inl e \<Rightarrow> Inl e
                      | Inr fs' \<Rightarrow> Inr (dumps (JObj validation_results), fs')))"
  using assms by (simp add: generate_report_def dict_get_def Let_def)

text \<open>
  C7. When the configured report format is a string whose lowercase form is neither "html"
  nor "json", \<open>generate_report\<close> does exactly what it does under the format "json", for
  every result, output path and file system: it returns \<^verbatim>\<open>json.dumps(result, indent=2)\<close>.
  Without an output path, or with a path that can be opened for writing, no error is raised.
\<close>

theorem generate_report_unknown_format:
  assumes "map_of config ''report_format'' = Some (JStr fmt)"
    and "py_lower fmt \<noteq> ''html''"
    and "py_lower fmt \<noteq> ''json''"
    and "map_of config_json ''report_format'' = Some (JStr ''json'')"
  shows "generate_report dumps repr config validation_results output_path fs =
           generate_report dumps repr config_json validation_results output_path fs
         \<and> generate_report dumps repr config validation_results None fs =
             Inr (dumps (JObj validation_results), fs)
         \<and> (writable fs path \<longrightarrow>
              (\<exists>fs'. generate_report dumps repr config validation_results (Some path) fs =
                       Inr (dumps (JObj validation_results), fs')))"
proof -
  have json: "py_lower ''json'' \<noteq> ''html''"
    by (simp add: py_lower_def lower_char_def)
  show ?thesis
    by (simp add: generate_report_not_html [OF assms(1,2)] generate_report_not_html [OF assms(4) json]
          write_file_def)
qed

theorem generate_report_unknown_format_witness:
  "generate_report (\<lambda>v. ''{}'') (\<lambda>v. []) [(''report_format'', JStr ''XML'')] [] None
       (Filesystem (\<lambda>p. None) (\<lambda>p. True)) =
     generate_report (\<lambda>v. ''{}'') (\<lambda>v. []) [(''report_format'', JStr ''json'')] [] None
       (Filesystem (\<lambda>p. None) (\<lambda>p. True))
   \<and> generate_report (\<lambda>v. ''{}'') (\<lambda>v. []) [(''report_format'', JStr ''XML'')] [] None
       (Filesystem (\<lambda>p. None) (\<lambda>p. True)) =
     Inr (''{}'', Filesystem (\<lambda>p. None) (\<lambda>p. True))"
proof -
  have a: "map_of [(''report_format'', JStr ''XML'')] ''report_format'' = Some (JStr ''XML'')"
    by simp
  have b: "py_lower ''XML'' \<noteq> ''html''" "py_lower ''XML'' \<noteq> ''json''"
    by (simp_all add: py_lower_def lower_char_def)
  have c: "map_of [(''report_format'', JStr ''json'')] ''report_format'' = Some (JStr ''json'')"
    by simp
  from generate_report_unknown_format [OF a b c, of "\<lambda>v. ''{}''" "\<lambda>v. []" "[]" None
      "Filesystem (\<lambda>p. None) (\<lambda>p. True)" "[]"]
  show ?thesis by blast
qed





section \<open>Properties of the LLM Judgment Client\<close>

lemma py_find_notin: "c \<notin> set s \<Longrightarrow> py_find c s = - 1"
  by (induction s) (auto simp: Let_def)

lemma py_find_ge: "- 1 \<le> py_find c s"
  by (induction s) (simp_all add: Let_def)

lemma py_find_append: "c \<notin> set pre \<Longrightarrow> py_find c (pre @ c # rest) = int (length pre)"
  by (induction pre) (auto simp: Let_def)

lemma py_find_in: "c \<in> set s \<Longrightarrow> 0 \<le> py_find c s"
  by (induction s) (auto simp: Let_def)

lemma py_find_split:
  "0 \<le> py_find c s \<Longrightarrow> \<exists>pre rest. s = pre @ c # rest \<and> c \<notin> set pre \<and> py_find c s = int (length pre)"
proof -
  assume "0 \<le> py_find c s"
  then have "c \<in> set s" using py_find_notin [of c s] by fastforce
  then obtain pre rest where "s = pre @ c # rest" "c \<notin> set pre"
    by (meson split_list_first)
  then show ?thesis using py_find_append by blast
qed

lemma py_rfind_append: "c \<notin> set post \<Longrightarrow> py_rfind c (xs @ c # post) = int (length xs)"
proof -
  assume a: "c \<notin> set post"
  have "rev (xs @ c # post) = rev post @ c # rev xs" by simp
  moreover have "c \<notin> set (rev post)" using a by simp
  ultimately have "py_find c (rev (xs @ c # post)) = int (length post)"
    using py_find_append [of c "rev post" "rev xs"] by simp
  then show ?thesis by (simp add: py_rfind_def)
qed

lemma py_rfind_split:
  "0 \<le> py_rfind c s \<Longrightarrow> \<exists>xs post. s = xs @ c # post \<and> c \<notin> set post \<and> py_rfind c s = int (length xs)"
proof -
  assume a: "0 \<le> py_rfind c s"
  have "c \<in> set s"
  proof (rule ccontr)
    assume "c \<notin> set s"
    then have "py_find c (rev s) = - 1" by (simp add: py_find_notin)
    then show False using a by (simp add: py_rfind_def)
  qed
  then obtain xs post where "s = xs @ c # post" "c \<notin> set post"
    by (meson split_list_last)
  then show ?thesis using py_rfind_append by blast
qed

lemma py_slice_span:
  "py_slice (pre @ a # mid @ b # post) (int (length pre)) (int (length (pre @ a # mid)) + 1) = a # mid @ [b]"
  by (simp add: py_slice_def nat_add_distrib)

lemma braces_located:
  assumes "text = pre @ [a] @ mid @ [b] @ post" "a \<notin> set pre" "b \<notin> set post"
  shows "py_find a text = int (length pre)"
    and "py_rfind b text = int (length pre) + 1 + int (length mid)"
    and "py_slice text (py_find a text) (py_rfind b text + 1) = [a] @ mid @ [b]"
proof -
  show f: "py_find a text = int (length pre)"
    using assms(1,2) py_find_append [of a pre "mid @ [b] @ post"] by simp
  have "text = (pre @ a # mid) @ b # post" using assms(1) by simp
  then have r: "py_rfind b text = int (length (pre @ a # mid))"
    using py_rfind_append [OF assms(3), of "pre @ a # mid"] by simp
  then show "py_rfind b text = int (length pre) + 1 + int (length mid)" by simp
  show "py_slice text (py_find a text) (py_rfind b text + 1) = [a] @ mid @ [b]"
    unfolding f r using assms(1) py_slice_span [of pre a mid b post] by simp
qed

lemma braces_found:
  assumes "0 \<le> py_find a text" "py_find a text < py_rfind b text + 1" "a \<noteq> b"
  shows "\<exists>pre mid post. text = pre @ [a] @ mid @ [b] @ post"
proof -
  from py_find_split [OF assms(1)] obtain pre rest where
    p: "text = pre @ a # rest" "a \<notin> set pre" "py_find a text = int (length pre)" by blast
  have "0 \<le> py_rfind b text" using assms(1,2) by linarith
  from py_rfind_split [OF this] obtain xs post where
    q: "text = xs @ b # post" "b \<notin> set post" "py_rfind b text = int (length xs)" by blast
  have le: "length pre \<le> length xs" using assms(2) p(3) q(3) by linarith
  have "length pre \<noteq> length xs"
  proof
    assume e: "length pre = length xs"
    have "text ! length pre = a" using p(1) by simp
    moreover have "text ! length xs = b" using q(1) by simp
    ultimately show False using e assms(3) by simp
  qed
  with le have lt: "length pre < length xs" by simp
  have "take (length xs) text = xs" using q(1) by simp
  then have "xs = take (length xs) (pre @ a # rest)" using p(1) by simp
  also have "\<dots> = pre @ a # take (length xs - length pre - 1) rest"
    using lt by (simp add: take_Cons')
  finally have "text = pre @ [a] @ take (length xs - length pre - 1) rest @ [b] @ post"
    using q(1) by simp
  then show ?thesis by blast
qed

text \<open>The failure record of the \<^verbatim>\<open>except\<close> clause.\<close>

lemma parse_dialogue_analysis_error_key:
  assumes "map_of d ''error'' = Some err"
  shows "parse_dialogue_analysis loads exc_str (JObj d) =
           JObj [(''success'', JBool False), (''error'', err)]"
proof -
  have "''error'' \<in> fst ` set d"
    using assms by (metis map_of_eq_None_iff option.distinct(1))
  then show ?thesis
    using assms by (simp add: parse_dialogue_analysis_def parse_body_def)
qed

lemma parse_body_text:
  assumes "py_contains response ''error'' = Inr False"
    and "reply_text response = Inr (JStr text)"
  shows "parse_body loads response =
     (if 0 \<le> py_find CHR ''{'' text \<and> py_find CHR ''{'' text < py_rfind CHR ''}'' text + 1 then
        (case loads (py_slice text (py_find CHR ''{'' text) (py_rfind CHR ''}'' text + 1)) of
           Inl msg \<Rightarrow> Inl (JSONDecodeError msg)
         | Inr analysis \<Rightarrow> py_setitem analysis ''success'' (JBool True))
      else Inr (JObj [(''success'', JBool False),
                      (''error'', JStr ''Could not extract JSON from response''),
                      (''raw_response'', JStr text)]))"
  using assms by (simp add: parse_body_def Let_def)

lemma parse_body_braces:
  assumes "py_contains response ''error'' = Inr False"
    and "reply_text response = Inr (JStr text)"
    and "text = pre @ [CHR ''{''] @ mid @ [CHR ''}''] @ post"
    and "CHR ''{'' \<notin> set pre" and "CHR ''}'' \<notin> set post"
  shows "parse_body loads response =
     (case loads ([CHR ''{''] @ mid @ [CHR ''}'']) of
        Inl msg \<Rightarrow> Inl (JSONDecodeError msg)
      | Inr analysis \<Rightarrow> py_setitem analysis ''success'' (JBool True))"
proof -
  note loc = braces_located [OF assms(3,4,5)]
  have "0 \<le> py_find CHR ''{'' text \<and> py_find CHR ''{'' text < py_rfind CHR ''}'' text + 1"
    unfolding loc(1,2) by simp
  then show ?thesis
    unfolding parse_body_text [OF assms(1,2)] by (simp add: loc(3))
qed

lemma parse_body_no_braces:
  assumes "py_contains response ''error'' = Inr False"
    and "reply_text response = Inr (JStr text)"
    and "\<not> (\<exists>pre mid post. text = pre @ [CHR ''{''] @ mid @ [CHR ''}''] @ post)"
  shows "parse_body loads response =
     Inr (JObj [(''success'', JBool False),
                (''error'', JStr ''Could not extract JSON from response''),
                (''raw_response'', JStr text)])"
proof -
  have "\<not> (0 \<le> py_find CHR ''{'' text \<and> py_find CHR ''{'' text < py_rfind CHR ''}'' text + 1)"
    using braces_found [of "CHR ''{''" "text" "CHR ''}''"] assms(3) by auto
  then show ?thesis
    unfolding parse_body_text [OF assms(1,2)] by (simp only: if_False)
qed

text \<open>
  C5, as the code has it. A reply that is an object with an \<open>error\<close> key is answered by
  \<open>{success: false, error: that value}\<close>, whatever its text, and no raw response is
  attached. For any other reply whose text is found: when the text has an opening brace
  before a closing brace, the substring from the first opening brace to the last closing
  brace is handed to \<^verbatim>\<open>json.loads\<close>; a parsed object is returned with \<open>success: true\<close>
  set, and an error of the parser gives \<open>{success: false, error, raw_response}\<close> with the
  whole reply attached; when there is no such pair of braces, the result is
  \<open>{success: false, error: "Could not extract JSON from response", raw_response: text}\<close>.
  In particular the reply text \<open>blah {"is_consistent": true, "confidence_score": 0.9} trailing\<close>
  yields the parsed object with \<open>success: true\<close>.
\<close>

theorem parse_dialogue_analysis_cases:
  \<open>(map_of d ''error'' = Some err \<longrightarrow>
      parse_dialogue_analysis loads exc_str (JObj d) = JObj [(''success'', JBool False), (''error'', err)])
   \<and> (py_contains response ''error'' = Inr False \<and> reply_text response = Inr (JStr text) \<longrightarrow>
        (\<forall>pre mid post.
            text = pre @ [CHR ''{''] @ mid @ [CHR ''}''] @ post
              \<and> CHR ''{'' \<notin> set pre \<and> CHR ''}'' \<notin> set post \<longrightarrow>
            (\<forall>analysis. loads ([CHR ''{''] @ mid @ [CHR ''}'']) = Inr (JObj analysis) \<longrightarrow>
               parse_dialogue_analysis loads exc_str response =
                 JObj (dict_set analysis ''success'' (JBool True)))
            \<and> (\<forall>msg. loads ([CHR ''{''] @ mid @ [CHR ''}'']) = Inl msg \<longrightarrow>
                 parse_dialogue_analysis loads exc_str response =
                   JObj [(''success'', JBool False),
                         (''error'', JStr (exc_str (JSONDecodeError msg))),
                         (''raw_response'', response)]))
        \<and> (\<not> (\<exists>pre mid post. text = pre @ [CHR ''{''] @ mid @ [CHR ''}''] @ post) \<longrightarrow>
             parse_dialogue_analysis loads exc_str response =
               JObj [(''success'', JBool False),
                     (''error'', JStr ''Could not extract JSON from response''),
                     (''raw_response'', JStr text)]))
   \<and> (parse_body loads response = Inl e \<longrightarrow>
        parse_dialogue_analysis loads exc_str response =
          JObj [(''success'', JBool False), (''error'', JStr (exc_str e)), (''raw_response'', response)])
   \<and> (loads ''{"is_consistent": true, "confidence_score": 0.9}'' =
         Inr (JObj [(''is_consistent'', JBool True), (''confidence_score'', JFloat (9 / 10))]) \<longrightarrow>
       parse_dialogue_analysis loads exc_str
         (JObj [(''candidates'',
                 JArr [JObj [(''content'',
                   JObj [(''parts'',
                     JArr [JObj [(''text'',
                       JStr ''blah {"is_consistent": true, "confidence_score": 0.9} trailing'')]])])]])]) =
         JObj [(''is_consistent'', JBool True),
               (''confidence_score'', JFloat (9 / 10)),
               (''success'', JBool True)])\<close>
proof (intro conjI impI allI)
  assume "map_of d ''error'' = Some err"
  then show "parse_dialogue_analysis loads exc_str (JObj d) = JObj [(''success'', JBool False), (''error'', err)]"
    by (rule parse_dialogue_analysis_error_key)
next
  fix pre mid post analysis
  assume r: "py_contains response ''error'' = Inr False \<and> reply_text response = Inr (JStr text)"
    and t: "text = pre @ [CHR ''{''] @ mid @ [CHR ''}''] @ post \<and> CHR ''{'' \<notin> set pre \<and> CHR ''}'' \<notin> set post"
    and l: "loads ([CHR ''{''] @ mid @ [CHR ''}'']) = Inr (JObj analysis)"
  have "parse_body loads response = py_setitem (JObj analysis) ''success'' (JBool True)"
    using parse_body_braces [of response "text" pre mid post loads] r t l by simp
  then show "parse_dialogue_analysis loads exc_str response = JObj (dict_set analysis ''success'' (JBool True))"
    by (simp add: parse_dialogue_analysis_def)
next
  fix pre mid post msg
  assume r: "py_contains response ''error'' = Inr False \<and> reply_text response = Inr (JStr text)"
    and t: "text = pre @ [CHR ''{''] @ mid @ [CHR ''}''] @ post \<and> CHR ''{'' \<notin> set pre \<and> CHR ''}'' \<notin> set post"
    and l: "loads ([CHR ''{''] @ mid @ [CHR ''}'']) = Inl msg"
  have "parse_body loads response = Inl (JSONDecodeError msg)"
    using parse_body_braces [of response "text" pre mid post loads] r t l by simp
  then show "parse_dialogue_analysis loads exc_str response =
      JObj [(''success'', JBool False), (''error'', JStr (exc_str (JSONDecodeError msg))),
            (''raw_response'', response)]"
    by (simp add: parse_dialogue_analysis_def)
next
  assume r: "py_contains response ''error'' = Inr False \<and> reply_text response = Inr (JStr text)"
    and n: "\<not> (\<exists>pre mid post. text = pre @ [CHR ''{''] @ mid @ [CHR ''}''] @ post)"
  have "parse_body loads response =
     Inr (JObj [(''success'', JBool False),
                (''error'', JStr ''Could not extract JSON from response''),
                (''raw_response'', JStr text)])"
    using parse_body_no_braces [of response "text" loads] r n by blast
  then show "parse_dialogue_analysis loads exc_str response =
      JObj [(''success'', JBool False),
            (''error'', JStr ''Could not extract JSON from response''),
            (''raw_response'', JStr text)]"
    by (simp add: parse_dialogue_analysis_def)
next
  assume "parse_body loads response = Inl e"
  then show "parse_dialogue_analysis loads exc_str response =
      JObj [(''success'', JBool False), (''error'', JStr (exc_str e)), (''raw_response'', response)]"
    by (simp add: parse_dialogue_analysis_def)
next
  let ?text = \<open>''blah {"is_consistent": true, "confidence_score": 0.9} trailing''\<close>
  let ?response = "JObj [(''candidates'',
                 JArr [JObj [(''content'',
                   JObj [(''parts'', JArr [JObj [(''text'', JStr ?text)]])])]])]"
  assume l: \<open>loads ''{"is_consistent": true, "confidence_score": 0.9}'' =
         Inr (JObj [(''is_consistent'', JBool True), (''confidence_score'', JFloat (9 / 10))])\<close>
  have c: "py_contains ?response ''error'' = Inr False" by simp
  have t: "reply_text ?response = Inr (JStr ?text)"
    by (simp add: reply_text_def dict_get_def)
  have s: \<open>?text = ''blah '' @ [CHR ''{''] @ ''"is_consistent": true, "confidence_score": 0.9'' @ [CHR ''}''] @ '' trailing''\<close>
    by simp
  have l': \<open>loads ([CHR ''{''] @ ''"is_consistent": true, "confidence_score": 0.9'' @ [CHR ''}'']) =
         Inr (JObj [(''is_consistent'', JBool True), (''confidence_score'', JFloat (9 / 10))])\<close>
    using l by simp
  have "parse_body loads ?response =
          py_setitem (JObj [(''is_consistent'', JBool True), (''confidence_score'', JFloat (9 / 10))])
            ''success'' (JBool True)"
    using parse_body_braces [OF c t s, of loads] l' by simp
  then show "parse_dialogue_analysis loads exc_str ?response =
         JObj [(''is_consistent'', JBool True),
               (''confidence_score'', JFloat (9 / 10)),
               (''success'', JBool True)]"
    by (simp add: parse_dialogue_analysis_def)
qed

theorem parse_dialogue_analysis_cases_witness:
  \<open>parse_dialogue_analysis
       (\<lambda>s. Inr (JObj [(''is_consistent'', JBool True), (''confidence_score'', JFloat (9 / 10))]))
       (\<lambda>e. ''error'')
       (JObj [(''candidates'',
               JArr [JObj [(''content'',
                 JObj [(''parts'',
                   JArr [JObj [(''text'',
                     JStr ''blah {"is_consistent": true, "confidence_score": 0.9} trailing'')]])])]])]) =
     JObj [(''is_consistent'', JBool True),
           (''confidence_score'', JFloat (9 / 10)),
           (''success'', JBool True)]\<close>
  by (rule parse_dialogue_analysis_cases
        [where loads = "\<lambda>s. Inr (JObj [(''is_consistent'', JBool True), (''confidence_score'', JFloat (9 / 10))])"
           and exc_str = "\<lambda>e. ''error''" and d = "[]" and err = JNull and response = JNull
           and e = TypeError,
         THEN conjunct2, THEN conjunct2, THEN conjunct2, THEN mp])
     (rule refl)

text \<open>
  C5 as stated fails on a reply that carries an \<open>error\<close> key: its text has braces and the
  substring parses, yet the result is a failure record, and without the raw response.
\<close>

theorem parse_dialogue_analysis_counterexample:
  \<open>reply_text
       (JObj [(''error'', JStr ''quota''),
              (''candidates'',
               JArr [JObj [(''content'',
                 JObj [(''parts'', JArr [JObj [(''text'', JStr ''{"is_consistent": true}'')]])])]])]) =
     Inr (JStr ''{"is_consistent": true}'')
   \<and> parse_dialogue_analysis
       sample_loads sample_exc_str
       (JObj [(''error'', JStr ''quota''),
              (''candidates'',
               JArr [JObj [(''content'',
                 JObj [(''parts'', JArr [JObj [(''text'', JStr ''{"is_consistent": true}'')]])])]])]) =
     JObj [(''success'', JBool False), (''error'', JStr ''quota'')]\<close>
  by (simp add: reply_text_def dict_get_def parse_dialogue_analysis_def parse_body_def)

lemma call_gemini_api_no_key:
  assumes "self_api_key self = None \<or> self_api_key self = Some []"
  shows "call_gemini_api post self prompt = (JObj [(''error'', JStr ''No API key provided'')], [])"
  using assms by (auto simp: call_gemini_api_def)

lemma parse_no_key:
  "parse_dialogue_analysis loads exc_str (JObj [(''error'', JStr ''No API key provided'')]) =
     JObj [(''success'', JBool False), (''error'', JStr ''No API key provided'')]"
  by (rule parse_dialogue_analysis_error_key) simp

text \<open>
  C6. An analyzer constructed without a key, in an environment where
  \<open>GEMINI_API_KEY\<close> is unset or empty, answers each of the three analysis operations with
  \<open>{success: false, error: "No API key provided"}\<close> and sends no request to the network.
\<close>

theorem analysis_without_api_key:
  assumes "environ ''GEMINI_API_KEY'' = None \<or> environ ''GEMINI_API_KEY'' = Some []"
  shows "analyze_dialogue_consistency post loads exc_str (GeminiAnalyzer environ None model)
             character current_dialogue previous_dialogues =
           (JObj [(''success'', JBool False), (''error'', JStr ''No API key provided'')], [])
         \<and> analyze_emotional_continuity post loads exc_str repr (GeminiAnalyzer environ None model)
             character current_emotion previous_emotions =
           (JObj [(''success'', JBool False), (''error'', JStr ''No API key provided'')], [])
         \<and> analyze_scene_narrative post loads exc_str repr (GeminiAnalyzer environ None model)
             scene_description previous_scenes =
           (JObj [(''success'', JBool False), (''error'', JStr ''No API key provided'')], [])"
proof -
  have key: "self_api_key (GeminiAnalyzer environ None model) = None
             \<or> self_api_key (GeminiAnalyzer environ None model) = Some []"
    using assms by (simp add: GeminiAnalyzer_def py_or_def)
  show ?thesis
    by (simp add: analyze_dialogue_consistency_def analyze_emotional_continuity_def
          analyze_scene_narrative_def parse_emotion_analysis_def parse_narrative_analysis_def
          call_gemini_api_no_key [OF key] parse_no_key Let_def)
qed

theorem analysis_without_api_key_witness:
  "analyze_dialogue_consistency (\<lambda>url body. Inr JNull) (\<lambda>s. Inl ''Expecting value'') (\<lambda>e. ''error'')
       (GeminiAnalyzer (\<lambda>name. None) None ''gemini-pro'') ''John'' ''Hello'' [''Hi''] =
     (JObj [(''success'', JBool False), (''error'', JStr ''No API key provided'')], [])
   \<and> analyze_emotional_continuity (\<lambda>url body. Inr JNull) (\<lambda>s. Inl ''Expecting value'') (\<lambda>e. ''error'')
       (\<lambda>v. []) (GeminiAnalyzer (\<lambda>name. None) None ''gemini-pro'') ''John'' ''calm'' [] =
     (JObj [(''success'', JBool False), (''error'', JStr ''No API key provided'')], [])
   \<and> analyze_scene_narrative (\<lambda>url body. Inr JNull) (\<lambda>s. Inl ''Expecting value'') (\<lambda>e. ''error'')
       (\<lambda>v. []) (GeminiAnalyzer (\<lambda>name. None) None ''gemini-pro'') ''A street'' [] =
     (JObj [(''success'', JBool False), (''error'', JStr ''No API key provided'')], [])"
  by (rule analysis_without_api_key) simp

section \<open>Properties of the Directory Watcher\<close>

lemma scan_files_after_cursor:
  "scan_files env ignore_patterns cursor file_paths acc = Inr out \<Longrightarrow>
     \<forall>ev \<in> set acc. after_cursor env cursor ev \<Longrightarrow>
     \<forall>ev \<in> set out. after_cursor env cursor ev"
proof (induction file_paths arbitrary: acc)
  case Nil
  then show ?case by simp
next
  case (Cons file_path file_paths)
  from Cons.prems(1) obtain ignored where
    m: "any_match env file_path ignore_patterns = Inr ignored"
    by (cases "any_match env file_path ignore_patterns") simp_all
  show ?case
  proof (cases ignored)
    case True
    with m Cons show ?thesis by simp
  next
    case False
    show ?thesis
    proof (cases "getmtime env file_path")
      case None
      with m False Cons.prems show ?thesis by simp
    next
      case (Some mod_time)
      show ?thesis
      proof (cases "mod_time > cursor")
        case True
        have "\<forall>ev \<in> set (acc @ [WatchEvent file_path (isoformat env mod_time)]). after_cursor env cursor ev"
          using Cons.prems(2) Some True by (auto simp: after_cursor_def)
        moreover have "scan_files env ignore_patterns cursor file_paths
            (acc @ [WatchEvent file_path (isoformat env mod_time)]) = Inr out"
          using Cons.prems(1) m False Some True by simp
        ultimately show ?thesis using Cons.IH by blast
      next
        case no: False
        then have "scan_files env ignore_patterns cursor file_paths acc = Inr out"
          using Cons.prems(1) m False Some by simp
        then show ?thesis using Cons.IH Cons.prems(2) by blast
      qed
    qed
  qed
qed

lemma scan_patterns_after_cursor:
  "scan_patterns env ignore_patterns cursor directory patterns acc = Inr out \<Longrightarrow>
     \<forall>ev \<in> set acc. after_cursor env cursor ev \<Longrightarrow>
     \<forall>ev \<in> set out. after_cursor env cursor ev"
proof (induction patterns arbitrary: acc)
  case Nil
  then show ?case by simp
next
  case (Cons pattern patterns)
  from Cons.prems(1) obtain file_paths mid where
    a: "scan_files env ignore_patterns cursor file_paths acc = Inr mid"
    and b: "scan_patterns env ignore_patterns cursor directory patterns mid = Inr out"
    by (auto split: sum.splits)
  from scan_files_after_cursor [OF a Cons.prems(2)] Cons.IH [OF b] show ?case by blast
qed

lemma scan_directories_after_cursor:
  "scan_directories env patterns ignore_patterns cursor watch_dirs acc = Inr out \<Longrightarrow>
     \<forall>ev \<in> set acc. after_cursor env cursor ev \<Longrightarrow>
     \<forall>ev \<in> set out. after_cursor env cursor ev"
proof (induction watch_dirs arbitrary: acc)
  case Nil
  then show ?case by simp
next
  case (Cons directory watch_dirs)
  show ?case
  proof (cases "path_exists env directory")
    case False
    with Cons show ?thesis by simp
  next
    case True
    with Cons.prems(1) obtain mid where
      a: "scan_patterns env ignore_patterns cursor directory patterns acc = Inr mid"
      and b: "scan_directories env patterns ignore_patterns cursor watch_dirs mid = Inr out"
      by (auto split: sum.splits)
    from scan_patterns_after_cursor [OF a Cons.prems(2)] Cons.IH [OF b] show ?thesis by blast
  qed
qed

lemma watch_directories_after_cursor:
  assumes "watch_directories env now self = Inr (modified_files, self')"
  shows "self' = Trigger (self_config self) now"
    and "\<forall>ev \<in> set modified_files. after_cursor env (last_check_time self) ev"
proof -
  from assms have scan: "scan_directories env (patterns_of (self_config self))
      (ignore_patterns_of (self_config self)) (last_check_time self)
      (watch_dirs_of (self_config self)) [] = Inr modified_files"
    and "self' = Trigger (self_config self) now"
    by (auto simp: watch_directories_def split: sum.splits)
  then show "self' = Trigger (self_config self) now" by simp
  from scan_directories_after_cursor [OF scan] show
    "\<forall>ev \<in> set modified_files. after_cursor env (last_check_time self) ev" by simp
qed

text \<open>
  C9, as the code has it. A scan that returns reports only files whose modification time
  is strictly after the cursor left by the previous scan, and it sets the cursor to the
  clock reading taken at its end, whether or not a file matched. Hence a file whose
  modification time is not after the clock reading that ended one scan is not reported
  by the next scan.
\<close>

theorem watch_directories_reports_after_cursor:
  "(watch_directories env now self = Inr (modified_files, self') \<longrightarrow>
      last_check_time self' = now
      \<and> (\<forall>ev \<in> set modified_files.
            \<exists>m. getmtime env (event_path ev) = Some m \<and> last_check_time self < m
                \<and> event_modified_time ev = isoformat env m))
   \<and> (watch_directories env1 now1 self0 = Inr (files1, self1)
        \<and> watch_directories env2 now2 self1 = Inr (files2, self2)
        \<and> getmtime env2 p = Some m \<and> m \<le> now1 \<longrightarrow>
      p \<notin> event_path ` set files2)"
proof (intro conjI impI)
  assume run: "watch_directories env now self = Inr (modified_files, self')"
  from watch_directories_after_cursor(1) [OF run] show "last_check_time self' = now" by simp
  from watch_directories_after_cursor(2) [OF run]
  show "\<forall>ev \<in> set modified_files.
            \<exists>m. getmtime env (event_path ev) = Some m \<and> last_check_time self < m
                \<and> event_modified_time ev = isoformat env m"
    by (simp add: after_cursor_def)
next
  assume a: "watch_directories env1 now1 self0 = Inr (files1, self1)
        \<and> watch_directories env2 now2 self1 = Inr (files2, self2)
        \<and> getmtime env2 p = Some m \<and> m \<le> now1"
  then have cur: "last_check_time self1 = now1"
    using watch_directories_after_cursor(1) [of env1 now1 self0 files1 self1] by simp
  from a have "\<forall>ev \<in> set files2. after_cursor env2 (last_check_time self1) ev"
    using watch_directories_after_cursor(2) [of env2 now2 self1 files2 self2] by blast
  with cur a show "p \<notin> event_path ` set files2"
    by (auto simp: after_cursor_def)
qed

theorem watch_directories_reports_after_cursor_witness:
  "watch_directories (demo_env 10) 50 (Trigger None 0) =
     Inr ([WatchEvent ''data/scenes/a.json'' ''t''], Trigger None 50)
   \<and> watch_directories (demo_env 10) 60 (Trigger None 50) = Inr ([], Trigger None 60)
   \<and> getmtime (demo_env 10) ''data/scenes/a.json'' = Some 10 \<and> (10::int) \<le> 50
   \<and> ''data/scenes/a.json'' \<notin> event_path ` set []"
proof -
  have a: "watch_directories (demo_env 10) 50 (Trigger None 0) =
     Inr ([WatchEvent ''data/scenes/a.json'' ''t''], Trigger None 50)"
    by (simp add: watch_directories_def demo_env_def patterns_of_def ignore_patterns_of_def
          watch_dirs_of_def)
  have b: "watch_directories (demo_env 10) 60 (Trigger None 50) = Inr ([], Trigger None 60)"
    by (simp add: watch_directories_def demo_env_def patterns_of_def ignore_patterns_of_def
          watch_dirs_of_def)
  have c: "getmtime (demo_env 10) ''data/scenes/a.json'' = Some 10" "(10::int) \<le> 50"
    by (simp_all add: demo_env_def)
  have "''data/scenes/a.json'' \<notin> event_path ` set []"
    using watch_directories_reports_after_cursor
      [THEN conjunct2, of "demo_env 10" 50 "Trigger None 0" _ "Trigger None 50" "demo_env 10" 60
         "[]" "Trigger None 60" "''data/scenes/a.json''" 10]
      a b c by blast
  with a b c show ?thesis by blast
qed

text \<open>
  C9 as stated fails for a file dated after the clock: its modification time does not
  change, and both of two consecutive scans report it.
\<close>

theorem watch_directories_future_mtime_counterexample:
  "watch_directories (demo_env 100) 50 (Trigger None 0) =
     Inr ([WatchEvent ''data/scenes/a.json'' ''t''], Trigger None 50)
   \<and> watch_directories (demo_env 100) 60 (Trigger None 50) =
     Inr ([WatchEvent ''data/scenes/a.json'' ''t''], Trigger None 60)"
  by (simp add: watch_directories_def demo_env_def patterns_of_def ignore_patterns_of_def
        watch_dirs_of_def)

end
